theory Spec2Isabelle
  imports Main "HOL-Library.AList"
begin

section \<open>Values, errors and the schema layer (api/models.py)\<close>

text \<open>
  A Python value held by a model field or a stored document. Timestamps are natural
  numbers (ticks of a clock). Nested dictionaries and lists are kept as they are; the
  schema layer inspects only the outermost constructor.
\<close>

datatype val =
    VNone
  | VStr string
  | VInt int
  | VBool bool
  | VTime nat
  | VList "val list"
  | VDict "(string \<times> val) list"

text \<open>
  A value of a write payload: a plain value, or the store's server-timestamp sentinel
  (\<open>firestore.SERVER_TIMESTAMP\<close>), which only the accessor puts into payloads.
\<close>

datatype wval = Plain val | SERVER_TIMESTAMP

type_synonym pydict = "(string \<times> val) list"
type_synonym payload = "(string \<times> wval) list"
type_synonym path = "string list"

datatype error =
    FirestoreError
  | HTTPException nat
  | AttributeError string
  | ValidationError
  | AssertionError

datatype model_cls =
  Organization | Project | Asset | Generation | Variant | Theme | ConceptImage | User

datatype ftype = TStr | TInt | TNat | TBool | TTime | TList | TDict | TStatus

text \<open>How a field is filled when the data has no entry for it.\<close>

datatype dflt = Required | Default val | DefaultNow

datatype field = Field (fname: string) (ftyp: ftype) (nullable: bool) (fdefault: dflt)

definition GenerationStatus :: "string list" where
  "GenerationStatus = [''pending'', ''running'', ''completed'', ''failed'']"

definition opt :: "string \<Rightarrow> ftype \<Rightarrow> field" where
  "opt n t = Field n t True (Default VNone)"

definition FirestoreBase :: "field list" where
  "FirestoreBase =
    [opt ''id'' TStr,
     opt ''org_id'' TStr,
     opt ''project_id'' TStr,
     Field ''created_at'' TTime True DefaultNow,
     opt ''updated_at'' TTime]"

fun fields_of :: "model_cls \<Rightarrow> field list" where
  "fields_of Organization = FirestoreBase @
    [Field ''name'' TStr False Required,
     opt ''owner_user_id'' TStr,
     opt ''plan_tier'' TStr,
     opt ''members_summary'' TList]"
| "fields_of Project = FirestoreBase @
    [Field ''name'' TStr False Required,
     opt ''description'' TStr,
     Field ''settings'' TDict True (Default (VDict [])),
     opt ''style_guide_markdown'' TStr,
     opt ''style_guide'' TDict,
     Field ''asset_count'' TInt True (Default (VInt 0)),
     Field ''theme_count'' TInt True (Default (VInt 0))]"
| "fields_of Theme = FirestoreBase @
    [Field ''name'' TStr False Required,
     Field ''style_keywords'' TList False (Default (VList [])),
     Field ''color_palette'' TList False (Default (VList [])),
     opt ''description'' TStr,
     opt ''example_image'' TStr,
     opt ''created_by'' TStr,
     opt ''style_guide_markdown'' TStr,
     Field ''concept_image_ids'' TList False (Default (VList []))]"
| "fields_of ConceptImage = FirestoreBase @
    [Field ''image_url'' TStr False Required,
     opt ''thumbnail_url'' TStr,
     Field ''tags'' TList False (Default (VList [])),
     opt ''description'' TStr,
     opt ''attribution'' TStr,
     opt ''uploaded_by'' TStr,
     opt ''theme_id'' TStr,
     opt ''asset_id'' TStr,
     Field ''usage_count'' TInt True (Default (VInt 0))]"
| "fields_of Variant = FirestoreBase @
    [Field ''image_url'' TStr False Required,
     opt ''thumbnail_url'' TStr,
     Field ''metadata'' TDict True (Default (VDict [])),
     Field ''is_selected'' TBool True (Default (VBool False)),
     opt ''feedback'' TStr,
     opt ''generated_at'' TTime]"
| "fields_of Generation = FirestoreBase @
    [Field ''prompt_text'' TStr False Required,
     Field ''parameters'' TDict False (Default (VDict [])),
     opt ''theme_id'' TStr,
     opt ''theme_snapshot'' TDict,
     Field ''concept_image_ids'' TList False (Default (VList [])),
     opt ''concept_image_weights'' TDict,
     Field ''variant_count'' TNat False (Default (VInt 0)),
     opt ''triggered_by'' TStr,
     Field ''status'' TStatus False (Default (VStr ''pending'')),
     opt ''notes'' TStr,
     opt ''version_number'' TInt,
     opt ''variant_summary'' TList]"
| "fields_of Asset = FirestoreBase @
    [Field ''name'' TStr False Required,
     opt ''description'' TStr,
     opt ''prompt'' TStr,
     opt ''size'' TStr,
     opt ''width'' TInt,
     opt ''height'' TInt,
     opt ''theme_id'' TStr,
     opt ''theme_name'' TStr,
     Field ''concept_image_ids'' TList False (Default (VList [])),
     Field ''tags'' TList False (Default (VList [])),
     opt ''created_by'' TStr,
     opt ''final_variant_id'' TStr,
     opt ''current_image_url'' TStr,
     opt ''latest_generation_id'' TStr,
     opt ''latest_generation_at'' TTime]"
| "fields_of User = FirestoreBase @
    [opt ''name'' TStr,
     opt ''email'' TStr,
     opt ''profile_picture_url'' TStr,
     Field ''org_memberships'' TList True (Default (VList [])),
     Field ''project_memberships'' TList True (Default (VList [])),
     opt ''last_login'' TTime,
     Field ''preferences'' TDict True (Default (VDict []))]"

text \<open>
  A model instance: its class and the value of every declared field, in declaration
  order (\<open>model.__dict__\<close>).
\<close>

datatype model = Model (cls: model_cls) (attrs: pydict)

text \<open>
  Field validation. A value is accepted when it has the declared type (for
  \<open>variant_count\<close> also \<open>ge=0\<close>, for \<open>status\<close> membership in the enum), or is
  \<open>None\<close> on an \<open>Optional\<close> field. The scalar coercions of the validation library
  (such as a number given for a string field) are not modelled: such a value is rejected.
\<close>

fun has_type :: "ftype \<Rightarrow> val \<Rightarrow> bool" where
  "has_type TStr (VStr s) = True"
| "has_type TInt (VInt i) = True"
| "has_type TNat (VInt i) = (0 \<le> i)"
| "has_type TBool (VBool b) = True"
| "has_type TTime (VTime t) = True"
| "has_type TList (VList xs) = True"
| "has_type TDict (VDict kvs) = True"
| "has_type TStatus (VStr s) = (s \<in> set GenerationStatus)"
| "has_type _ _ = False"

definition accepts :: "field \<Rightarrow> val \<Rightarrow> bool" where
  "accepts f v = (if v = VNone then nullable f else has_type (ftyp f) v)"

text \<open>\<open>now\<close> is the client's wall clock, read by \<open>default_factory=now\<close>.\<close>

definition field_value :: "nat \<Rightarrow> pydict \<Rightarrow> field \<Rightarrow> val option" where
  "field_value now data f =
     (case map_of data (fname f) of
        Some v \<Rightarrow> if accepts f v then Some v else None
      | None \<Rightarrow>
          (case fdefault f of
             Required \<Rightarrow> None
           | Default v \<Rightarrow> Some v
           | DefaultNow \<Rightarrow> Some (VTime now)))"

fun build_attrs :: "nat \<Rightarrow> pydict \<Rightarrow> field list \<Rightarrow> pydict option" where
  "build_attrs now data [] = Some []"
| "build_attrs now data (f # fs) =
     (case field_value now data f of
        None \<Rightarrow> None
      | Some v \<Rightarrow> map_option (\<lambda>r. (fname f, v) # r) (build_attrs now data fs))"

text \<open>\<open>model_cls(**data)\<close>: entries of \<open>data\<close> for undeclared fields are ignored.\<close>

definition construct :: "model_cls \<Rightarrow> nat \<Rightarrow> pydict \<Rightarrow> model option" where
  "construct c now data = map_option (Model c) (build_attrs now data (fields_of c))"

definition valid_model :: "model \<Rightarrow> bool" where
  "valid_model m =
     (map fst (attrs m) = map fname (fields_of (cls m)) \<and>
      list_all2 (\<lambda>kv f. accepts f (snd kv)) (attrs m) (fields_of (cls m)))"

definition hasattr :: "model \<Rightarrow> string \<Rightarrow> bool" where
  "hasattr m k = (k \<in> set (map fst (attrs m)))"

definition getattr :: "model \<Rightarrow> string \<Rightarrow> val option" where
  "getattr m k = map_of (attrs m) k"

definition setattr :: "model \<Rightarrow> string \<Rightarrow> val \<Rightarrow> model" where
  "setattr m k v = Model (cls m) (AList.update k v (attrs m))"

text \<open>\<open>model.dict()\<close> and \<open>model.dict(exclude_none=True)\<close>.\<close>

definition dict_all :: "model \<Rightarrow> pydict" where
  "dict_all m = attrs m"

definition dict_exclude_none :: "model \<Rightarrow> pydict" where
  "dict_exclude_none m = filter (\<lambda>kv. snd kv \<noteq> VNone) (attrs m)"


section \<open>The document store\<close>

text \<open>
  Modelled from the spec: the hierarchical document store is an external collaborator
  (section 6 of the specification); the repository holds only calls to its client
  library. The model gives it what the specification assumes: path-addressed documents,
  create / get / update (partial merge) / delete, collection listing, a transaction that
  applies a set of writes atomically or not at all, and a server clock whose value
  replaces the timestamp sentinel at write time.

  A document reference is a collection path and a document id. Every call that goes to
  the store is counted in \<open>rpcs\<close> and takes its outcome from the fault plan \<open>faults\<close>
  (\<open>True\<close>: this call raises); an exhausted plan means no more faults.
  \<open>wall_clock\<close> is the client's clock, read by \<open>now()\<close>.
\<close>

type_synonym docref = "path \<times> string"

record env =
  docs :: "(docref \<times> pydict) list"
  server_clock :: nat
  auto_ids :: nat
  faults :: "bool list"
  rpcs :: nat
  wall_clock :: nat

type_synonym 'a result = "(error + 'a) \<times> env"

definition rpc :: "env \<Rightarrow> bool \<times> env" where
  "rpc s =
     (case faults s of
        [] \<Rightarrow> (True, s\<lparr>rpcs := Suc (rpcs s)\<rparr>)
      | f # fs \<Rightarrow> (\<not> f, s\<lparr>faults := fs, rpcs := Suc (rpcs s)\<rparr>))"

definition resolve :: "nat \<Rightarrow> payload \<Rightarrow> pydict" where
  "resolve t p = map (\<lambda>(k, w). (k, case w of Plain v \<Rightarrow> v | SERVER_TIMESTAMP \<Rightarrow> VTime t)) p"

text \<open>Applying a set of writes: one tick of the server clock, every write a full overwrite.\<close>

definition commit :: "(docref \<times> payload) list \<Rightarrow> env \<Rightarrow> env" where
  "commit ws s =
     (let t = Suc (server_clock s)
      in s\<lparr>docs := fold (\<lambda>(ref, p). AList.update ref (resolve t p)) ws (docs s),
           server_clock := t\<rparr>)"

text \<open>Store-generated document ids: \<open>auto0\<close>, \<open>auto1\<close>, ...\<close>

fun digits :: "nat \<Rightarrow> string" where
  "digits n =
     (if n < 10 then [char_of (48 + n)]
      else digits (n div 10) @ [char_of (48 + n mod 10)])"

definition auto_id :: "nat \<Rightarrow> string" where
  "auto_id n = ''auto'' @ digits n"

text \<open>\<open>collection.document()\<close>: a new reference with a generated id; no call to the store.\<close>

definition new_document :: "path \<Rightarrow> env \<Rightarrow> docref \<times> env" where
  "new_document col s = ((col, auto_id (auto_ids s)), s\<lparr>auto_ids := Suc (auto_ids s)\<rparr>)"

definition collection :: "docref \<Rightarrow> string \<Rightarrow> path" where
  "collection ref name = fst ref @ [snd ref, name]"

text \<open>\<open>doc_ref.set(payload)\<close>. The Boolean is False when the call raised.\<close>

definition doc_set :: "docref \<Rightarrow> payload \<Rightarrow> env \<Rightarrow> bool \<times> env" where
  "doc_set ref p s =
     (case rpc s of
        (False, s') \<Rightarrow> (False, s')
      | (True, s') \<Rightarrow> (True, commit [(ref, p)] s'))"

text \<open>\<open>collection.add(payload)\<close>: creates a document under a generated id, and raises
  when that document exists already.\<close>

definition col_add :: "path \<Rightarrow> payload \<Rightarrow> env \<Rightarrow> docref option \<times> env" where
  "col_add col p s =
     (case new_document col s of
        (ref, s1) \<Rightarrow>
          (case rpc s1 of
             (False, s2) \<Rightarrow> (None, s2)
           | (True, s2) \<Rightarrow>
               (case map_of (docs s2) ref of
                  Some d \<Rightarrow> (None, s2)
                | None \<Rightarrow> (Some ref, commit [(ref, p)] s2))))"

text \<open>\<open>doc_ref.get()\<close>: a snapshot is the document id and the data, if the document
  exists. \<open>None\<close> when the call raised.\<close>

type_synonym snapshot = "string \<times> pydict option"

definition doc_get :: "docref \<Rightarrow> env \<Rightarrow> snapshot option \<times> env" where
  "doc_get ref s =
     (case rpc s of
        (False, s') \<Rightarrow> (None, s')
      | (True, s') \<Rightarrow> (Some (snd ref, map_of (docs s') ref), s'))"

text \<open>\<open>collection.get()\<close>: the snapshots of the documents of the collection, in the
  store's order.\<close>

definition col_get :: "path \<Rightarrow> env \<Rightarrow> snapshot list option \<times> env" where
  "col_get col s =
     (case rpc s of
        (False, s') \<Rightarrow> (None, s')
      | (True, s') \<Rightarrow>
          (Some (map (\<lambda>(ref, d). (snd ref, Some d))
                   (filter (\<lambda>(ref, d). fst ref = col) (docs s'))), s'))"

text \<open>\<open>doc_ref.update(payload)\<close>: merges the fields into the existing document; the
  client library raises when the document does not exist.\<close>

definition merge_fields :: "pydict \<Rightarrow> pydict \<Rightarrow> pydict" where
  "merge_fields upd d = fold (\<lambda>(k, v). AList.update k v) upd d"

definition doc_update :: "docref \<Rightarrow> payload \<Rightarrow> env \<Rightarrow> bool \<times> env" where
  "doc_update ref p s =
     (case rpc s of
        (False, s') \<Rightarrow> (False, s')
      | (True, s') \<Rightarrow>
          (case map_of (docs s') ref of
             None \<Rightarrow> (False, s')
           | Some d \<Rightarrow>
               (let t = Suc (server_clock s')
                in (True, s'\<lparr>docs := AList.update ref (merge_fields (resolve t p) d) (docs s'),
                             server_clock := t\<rparr>))))"

text \<open>\<open>doc_ref.delete()\<close>: deleting a missing document is not an error.\<close>

definition doc_delete :: "docref \<Rightarrow> env \<Rightarrow> bool \<times> env" where
  "doc_delete ref s =
     (case rpc s of
        (False, s') \<Rightarrow> (False, s')
      | (True, s') \<Rightarrow> (True, s'\<lparr>docs := AList.delete ref (docs s')\<rparr>))"

text \<open>
  \<open>client.transaction()(fn)\<close>: \<open>fn\<close> buffers its writes (it may allocate document ids,
  which is no call to the store); one call then commits them all, or aborts and writes
  nothing. \<open>None\<close> when the transaction aborted.
\<close>

definition run_transaction ::
  "(env \<Rightarrow> ((docref \<times> payload) list \<times> 'a) \<times> env) \<Rightarrow> env \<Rightarrow> 'a option \<times> env" where
  "run_transaction fn s =
     (case fn s of
        ((writes, r), s1) \<Rightarrow>
          (case rpc s1 of
             (False, s2) \<Rightarrow> (None, s2)
           | (True, s2) \<Rightarrow> (Some r, commit writes s2)))"

section \<open>The document accessor (api/firebase.py)\<close>

subsection \<open>Helper utilities\<close>

definition model_to_dict :: "model \<Rightarrow> bool \<Rightarrow> pydict" where
  "model_to_dict m include_id =
     (let data = dict_exclude_none m
      in if \<not> include_id \<and> ''id'' \<in> fst ` set data then AList.delete ''id'' data else data)"

definition apply_server_timestamps :: "payload \<Rightarrow> string list \<Rightarrow> payload" where
  "apply_server_timestamps d timestamp_fields =
     fold (\<lambda>k d. AList.update k SERVER_TIMESTAMP d) timestamp_fields d"

definition doc_to_model :: "snapshot \<Rightarrow> model_cls \<Rightarrow> env \<Rightarrow> error + model option" where
  "doc_to_model doc_snapshot c s =
     (case snd doc_snapshot of
        None \<Rightarrow> Inr None
      | Some d \<Rightarrow>
          (let data = AList.update ''id'' (VStr (fst doc_snapshot)) d
           in case construct c (wall_clock s) data of
                None \<Rightarrow> Inl FirestoreError
              | Some m \<Rightarrow> Inr (Some m)))"

fun attach_metadata :: "model \<Rightarrow> pydict \<Rightarrow> model" where
  "attach_metadata m [] = m"
| "attach_metadata m ((key, v) # kwargs) =
     attach_metadata (if v \<noteq> VNone \<and> hasattr m key then setattr m key v else m) kwargs"

fun query_to_models :: "snapshot list \<Rightarrow> model_cls \<Rightarrow> env \<Rightarrow> error + model list" where
  "query_to_models [] c s = Inr []"
| "query_to_models (doc # rest) c s =
     (case doc_to_model doc c s of
        Inl e \<Rightarrow> Inl e
      | Inr mo \<Rightarrow>
          (case query_to_models rest c s of
             Inl e \<Rightarrow> Inl e
           | Inr ms \<Rightarrow> Inr ((case mo of None \<Rightarrow> [] | Some m \<Rightarrow> [m]) @ ms)))"

subsection \<open>Generic document helpers\<close>

text \<open>Python truthiness of an optional id: \<open>None\<close> and the empty string are false.\<close>

fun given :: "string option \<Rightarrow> string option" where
  "given None = None"
| "given (Some i) = (if i = [] then None else Some i)"

text \<open>A dictionary of plain values as a write payload.\<close>

definition plain :: "pydict \<Rightarrow> payload" where
  "plain data = map (\<lambda>(k, v). (k, Plain v)) data"

definition create_payload :: "pydict \<Rightarrow> bool \<Rightarrow> payload" where
  "create_payload data set_timestamps =
     (let payload = plain data
      in if set_timestamps then
           AList.update ''updated_at'' SERVER_TIMESTAMP
             (if ''created_at'' \<in> fst ` set payload then payload
              else AList.update ''created_at'' SERVER_TIMESTAMP payload)
         else payload)"

definition create_doc :: "path \<Rightarrow> pydict \<Rightarrow> string option \<Rightarrow> bool \<Rightarrow> env \<Rightarrow> docref result" where
  "create_doc collection_ref data doc_id set_timestamps s =
     (let payload = create_payload data set_timestamps
      in case given doc_id of
           Some i \<Rightarrow>
             (case doc_set (collection_ref, i) payload s of
                (False, s') \<Rightarrow> (Inl FirestoreError, s')
              | (True, s') \<Rightarrow> (Inr (collection_ref, i), s'))
         | None \<Rightarrow>
             (case col_add collection_ref payload s of
                (None, s') \<Rightarrow> (Inl FirestoreError, s')
              | (Some doc_ref, s') \<Rightarrow> (Inr doc_ref, s')))"

definition get_doc :: "docref \<Rightarrow> model_cls \<Rightarrow> env \<Rightarrow> model option result" where
  "get_doc doc_ref c s =
     (case doc_get doc_ref s of
        (None, s') \<Rightarrow> (Inl FirestoreError, s')
      | (Some snap, s') \<Rightarrow> (doc_to_model snap c s', s'))"

definition update_doc :: "docref \<Rightarrow> pydict \<Rightarrow> bool \<Rightarrow> env \<Rightarrow> unit result" where
  "update_doc doc_ref updates set_updated_at s =
     (let payload = plain updates;
          payload = (if set_updated_at then AList.update ''updated_at'' SERVER_TIMESTAMP payload
                     else payload)
      in case doc_update doc_ref payload s of
           (False, s') \<Rightarrow> (Inl FirestoreError, s')
         | (True, s') \<Rightarrow> (Inr (), s'))"

definition delete_doc :: "docref \<Rightarrow> env \<Rightarrow> unit result" where
  "delete_doc doc_ref s =
     (case doc_delete doc_ref s of
        (False, s') \<Rightarrow> (Inl FirestoreError, s')
      | (True, s') \<Rightarrow> (Inr (), s'))"


subsection \<open>Organization helpers\<close>

definition orgs_col :: path where
  "orgs_col = [''organizations'']"

definition create_organization :: "model \<Rightarrow> string option \<Rightarrow> env \<Rightarrow> model result" where
  "create_organization org org_id s =
     (let data = model_to_dict org False;
          col = orgs_col
      in case create_doc col data org_id True s of
           (Inl e, s1) \<Rightarrow> (Inl e, s1)
         | (Inr doc_ref, s1) \<Rightarrow>
             (case get_doc doc_ref Organization s1 of
                (Inl e, s2) \<Rightarrow> (Inl e, s2)
              | (Inr None, s2) \<Rightarrow> (Inl FirestoreError, s2)
              | (Inr (Some created), s2) \<Rightarrow> (Inr (created), s2)))"

definition get_organization :: "string \<Rightarrow> env \<Rightarrow> model option result" where
  "get_organization org_id s = get_doc (orgs_col, org_id) Organization s"

definition list_organizations :: "env \<Rightarrow> model list result" where
  "list_organizations s =
     (case col_get (orgs_col) s of
        (None, s') \<Rightarrow> (Inl FirestoreError, s')
      | (Some snaps, s') \<Rightarrow>
          (case query_to_models snaps Organization s' of
             Inl e \<Rightarrow> (Inl e, s')
           | Inr ms \<Rightarrow> (Inr (ms), s')))"

definition update_organization :: "string \<Rightarrow> pydict \<Rightarrow> env \<Rightarrow> unit result" where
  "update_organization org_id updates s = update_doc (orgs_col, org_id) updates True s"

definition delete_organization :: "string \<Rightarrow> env \<Rightarrow> unit result" where
  "delete_organization org_id s = delete_doc (orgs_col, org_id) s"

subsection \<open>Project helpers\<close>

definition projects_col :: "string \<Rightarrow> path" where
  "projects_col org_id = collection (orgs_col, org_id) ''projects''"

definition create_project :: "string \<Rightarrow> model \<Rightarrow> string option \<Rightarrow> env \<Rightarrow> model result" where
  "create_project org_id project project_id s =
     (let data = model_to_dict project False;
          col = projects_col org_id
      in case create_doc col data project_id True s of
           (Inl e, s1) \<Rightarrow> (Inl e, s1)
         | (Inr doc_ref, s1) \<Rightarrow>
             (case get_doc doc_ref Project s1 of
                (Inl e, s2) \<Rightarrow> (Inl e, s2)
              | (Inr None, s2) \<Rightarrow> (Inl FirestoreError, s2)
              | (Inr (Some created), s2) \<Rightarrow> (Inr (attach_metadata created [(''org_id'', VStr org_id)]), s2)))"

definition get_project :: "string \<Rightarrow> string \<Rightarrow> env \<Rightarrow> model option result" where
  "get_project org_id project_id s =
     (case get_doc (projects_col org_id, project_id) Project s of
        (Inl e, s') \<Rightarrow> (Inl e, s')
      | (Inr None, s') \<Rightarrow> (Inr None, s')
      | (Inr (Some project), s') \<Rightarrow> (Inr (Some (attach_metadata project [(''org_id'', VStr org_id)])), s'))"

definition list_projects :: "string \<Rightarrow> env \<Rightarrow> model list result" where
  "list_projects org_id s =
     (case col_get (projects_col org_id) s of
        (None, s') \<Rightarrow> (Inl FirestoreError, s')
      | (Some snaps, s') \<Rightarrow>
          (case query_to_models snaps Project s' of
             Inl e \<Rightarrow> (Inl e, s')
           | Inr ms \<Rightarrow> (Inr (map (\<lambda>project. attach_metadata project [(''org_id'', VStr org_id)]) ms), s')))"

definition update_project :: "string \<Rightarrow> string \<Rightarrow> pydict \<Rightarrow> env \<Rightarrow> unit result" where
  "update_project org_id project_id updates s = update_doc (projects_col org_id, project_id) updates True s"

subsection \<open>Asset helpers\<close>

definition assets_col :: "string \<Rightarrow> string \<Rightarrow> path" where
  "assets_col org_id project_id = collection (projects_col org_id, project_id) ''assets''"

definition create_asset :: "string \<Rightarrow> string \<Rightarrow> model \<Rightarrow> string option \<Rightarrow> env \<Rightarrow> model result" where
  "create_asset org_id project_id asset asset_id s =
     (let data = model_to_dict asset False;
          col = assets_col org_id project_id
      in case create_doc col data asset_id True s of
           (Inl e, s1) \<Rightarrow> (Inl e, s1)
         | (Inr doc_ref, s1) \<Rightarrow>
             (case get_doc doc_ref Asset s1 of
                (Inl e, s2) \<Rightarrow> (Inl e, s2)
              | (Inr None, s2) \<Rightarrow> (Inl FirestoreError, s2)
              | (Inr (Some created), s2) \<Rightarrow> (Inr (attach_metadata created [(''org_id'', VStr org_id), (''project_id'', VStr project_id)]), s2)))"

definition get_asset :: "string \<Rightarrow> string \<Rightarrow> string \<Rightarrow> env \<Rightarrow> model option result" where
  "get_asset org_id project_id asset_id s =
     (case get_doc (assets_col org_id project_id, asset_id) Asset s of
        (Inl e, s') \<Rightarrow> (Inl e, s')
      | (Inr None, s') \<Rightarrow> (Inr None, s')
      | (Inr (Some asset), s') \<Rightarrow> (Inr (Some (attach_metadata asset [(''org_id'', VStr org_id), (''project_id'', VStr project_id)])), s'))"

definition update_asset :: "string \<Rightarrow> string \<Rightarrow> string \<Rightarrow> pydict \<Rightarrow> env \<Rightarrow> unit result" where
  "update_asset org_id project_id asset_id updates s = update_doc (assets_col org_id project_id, asset_id) updates True s"

definition delete_asset :: "string \<Rightarrow> string \<Rightarrow> string \<Rightarrow> env \<Rightarrow> unit result" where
  "delete_asset org_id project_id asset_id s = delete_doc (assets_col org_id project_id, asset_id) s"

subsection \<open>Generation helpers\<close>

definition generations_col :: "string \<Rightarrow> string \<Rightarrow> string \<Rightarrow> path" where
  "generations_col org_id project_id asset_id =
     collection (assets_col org_id project_id, asset_id) ''generations''"

definition create_generation :: "string \<Rightarrow> string \<Rightarrow> string \<Rightarrow> model \<Rightarrow> string option \<Rightarrow> env \<Rightarrow> model result" where
  "create_generation org_id project_id asset_id generation generation_id s =
     (let data = model_to_dict generation False;
          col = generations_col org_id project_id asset_id
      in case create_doc col data generation_id True s of
           (Inl e, s1) \<Rightarrow> (Inl e, s1)
         | (Inr doc_ref, s1) \<Rightarrow>
             (case get_doc doc_ref Generation s1 of
                (Inl e, s2) \<Rightarrow> (Inl e, s2)
              | (Inr None, s2) \<Rightarrow> (Inl FirestoreError, s2)
              | (Inr (Some created), s2) \<Rightarrow> (Inr (attach_metadata created [(''org_id'', VStr org_id), (''project_id'', VStr project_id), (''asset_id'', VStr asset_id)]), s2)))"

definition get_generation :: "string \<Rightarrow> string \<Rightarrow> string \<Rightarrow> string \<Rightarrow> env \<Rightarrow> model option result" where
  "get_generation org_id project_id asset_id generation_id s =
     (case get_doc (generations_col org_id project_id asset_id, generation_id) Generation s of
        (Inl e, s') \<Rightarrow> (Inl e, s')
      | (Inr None, s') \<Rightarrow> (Inr None, s')
      | (Inr (Some generation), s') \<Rightarrow> (Inr (Some (attach_metadata generation [(''org_id'', VStr org_id), (''project_id'', VStr project_id), (''asset_id'', VStr asset_id)])), s'))"

definition update_generation :: "string \<Rightarrow> string \<Rightarrow> string \<Rightarrow> string \<Rightarrow> pydict \<Rightarrow> env \<Rightarrow> unit result" where
  "update_generation org_id project_id asset_id generation_id updates s = update_doc (generations_col org_id project_id asset_id, generation_id) updates True s"

subsection \<open>Variant helpers\<close>

definition variants_col :: "string \<Rightarrow> string \<Rightarrow> string \<Rightarrow> string \<Rightarrow> path" where
  "variants_col org_id project_id asset_id generation_id =
     collection (generations_col org_id project_id asset_id, generation_id) ''variants''"

definition create_variant :: "string \<Rightarrow> string \<Rightarrow> string \<Rightarrow> string \<Rightarrow> model \<Rightarrow> string option \<Rightarrow> env \<Rightarrow> model result" where
  "create_variant org_id project_id asset_id generation_id variant variant_id s =
     (let data = model_to_dict variant False;
          col = variants_col org_id project_id asset_id generation_id
      in case create_doc col data variant_id True s of
           (Inl e, s1) \<Rightarrow> (Inl e, s1)
         | (Inr doc_ref, s1) \<Rightarrow>
             (case get_doc doc_ref Variant s1 of
                (Inl e, s2) \<Rightarrow> (Inl e, s2)
              | (Inr None, s2) \<Rightarrow> (Inl FirestoreError, s2)
              | (Inr (Some created), s2) \<Rightarrow> (Inr (attach_metadata created [(''org_id'', VStr org_id), (''project_id'', VStr project_id), (''asset_id'', VStr asset_id), (''generation_id'', VStr generation_id)]), s2)))"

definition get_variant :: "string \<Rightarrow> string \<Rightarrow> string \<Rightarrow> string \<Rightarrow> string \<Rightarrow> env \<Rightarrow> model option result" where
  "get_variant org_id project_id asset_id generation_id variant_id s =
     (case get_doc (variants_col org_id project_id asset_id generation_id, variant_id) Variant s of
        (Inl e, s') \<Rightarrow> (Inl e, s')
      | (Inr None, s') \<Rightarrow> (Inr None, s')
      | (Inr (Some variant), s') \<Rightarrow> (Inr (Some (attach_metadata variant [(''org_id'', VStr org_id), (''project_id'', VStr project_id), (''asset_id'', VStr asset_id), (''generation_id'', VStr generation_id)])), s'))"

definition list_variants :: "string \<Rightarrow> string \<Rightarrow> string \<Rightarrow> string \<Rightarrow> env \<Rightarrow> model list result" where
  "list_variants org_id project_id asset_id generation_id s =
     (case col_get (variants_col org_id project_id asset_id generation_id) s of
        (None, s') \<Rightarrow> (Inl FirestoreError, s')
      | (Some snaps, s') \<Rightarrow>
          (case query_to_models snaps Variant s' of
             Inl e \<Rightarrow> (Inl e, s')
           | Inr ms \<Rightarrow> (Inr (map (\<lambda>variant. attach_metadata variant [(''org_id'', VStr org_id), (''project_id'', VStr project_id), (''asset_id'', VStr asset_id), (''generation_id'', VStr generation_id)]) ms), s')))"

subsection \<open>Theme helpers\<close>

definition themes_col :: "string \<Rightarrow> string \<Rightarrow> path" where
  "themes_col org_id project_id = collection (projects_col org_id, project_id) ''themes''"

definition create_theme :: "string \<Rightarrow> string \<Rightarrow> model \<Rightarrow> string option \<Rightarrow> env \<Rightarrow> model result" where
  "create_theme org_id project_id theme theme_id s =
     (let data = model_to_dict theme False;
          col = themes_col org_id project_id
      in case create_doc col data theme_id True s of
           (Inl e, s1) \<Rightarrow> (Inl e, s1)
         | (Inr doc_ref, s1) \<Rightarrow>
             (case get_doc doc_ref Theme s1 of
                (Inl e, s2) \<Rightarrow> (Inl e, s2)
              | (Inr None, s2) \<Rightarrow> (Inl FirestoreError, s2)
              | (Inr (Some created), s2) \<Rightarrow> (Inr (attach_metadata created [(''org_id'', VStr org_id), (''project_id'', VStr project_id)]), s2)))"

definition list_themes :: "string \<Rightarrow> string \<Rightarrow> env \<Rightarrow> model list result" where
  "list_themes org_id project_id s =
     (case col_get (themes_col org_id project_id) s of
        (None, s') \<Rightarrow> (Inl FirestoreError, s')
      | (Some snaps, s') \<Rightarrow>
          (case query_to_models snaps Theme s' of
             Inl e \<Rightarrow> (Inl e, s')
           | Inr ms \<Rightarrow> (Inr (map (\<lambda>theme. attach_metadata theme [(''org_id'', VStr org_id), (''project_id'', VStr project_id)]) ms), s')))"

subsection \<open>ConceptImage helpers\<close>

definition concept_images_col :: "string \<Rightarrow> string \<Rightarrow> path" where
  "concept_images_col org_id project_id =
     collection (projects_col org_id, project_id) ''conceptImages''"

definition create_concept_image :: "string \<Rightarrow> string \<Rightarrow> model \<Rightarrow> string option \<Rightarrow> env \<Rightarrow> model result" where
  "create_concept_image org_id project_id ci image_id s =
     (let data = model_to_dict ci False;
          col = concept_images_col org_id project_id
      in case create_doc col data image_id True s of
           (Inl e, s1) \<Rightarrow> (Inl e, s1)
         | (Inr doc_ref, s1) \<Rightarrow>
             (case get_doc doc_ref ConceptImage s1 of
                (Inl e, s2) \<Rightarrow> (Inl e, s2)
              | (Inr None, s2) \<Rightarrow> (Inl FirestoreError, s2)
              | (Inr (Some created), s2) \<Rightarrow> (Inr (attach_metadata created [(''org_id'', VStr org_id), (''project_id'', VStr project_id)]), s2)))"

subsection \<open>User helpers\<close>

definition users_col :: path where
  "users_col = [''users'']"

definition create_user :: "model \<Rightarrow> string option \<Rightarrow> env \<Rightarrow> model result" where
  "create_user user user_id s =
     (let data = model_to_dict user False;
          col = users_col
      in case create_doc col data user_id True s of
           (Inl e, s1) \<Rightarrow> (Inl e, s1)
         | (Inr doc_ref, s1) \<Rightarrow>
             (case get_doc doc_ref User s1 of
                (Inl e, s2) \<Rightarrow> (Inl e, s2)
              | (Inr None, s2) \<Rightarrow> (Inl FirestoreError, s2)
              | (Inr (Some created), s2) \<Rightarrow> (Inr (created), s2)))"

definition get_user :: "string \<Rightarrow> env \<Rightarrow> model option result" where
  "get_user user_id s = get_doc (users_col, user_id) User s"

definition list_users :: "env \<Rightarrow> model list result" where
  "list_users s =
     (case col_get (users_col) s of
        (None, s') \<Rightarrow> (Inl FirestoreError, s')
      | (Some snaps, s') \<Rightarrow>
          (case query_to_models snaps User s' of
             Inl e \<Rightarrow> (Inl e, s')
           | Inr ms \<Rightarrow> (Inr (ms), s')))"

subsection \<open>Convenience operations\<close>

text \<open>The container models \<open>AssetWithGenerations\<close> and \<open>GenerationWithVariants\<close>: the
  fields of the base model and the list of nested models.\<close>

datatype asset_with_generations =
  AssetWithGenerations (awg_asset: model) (generations: "model list option")

datatype generation_with_variants =
  GenerationWithVariants (gwv_generation: model) (variants: "model list option")

definition transaction_fn ::
  "string \<Rightarrow> string \<Rightarrow> model \<Rightarrow> model \<Rightarrow> string option \<Rightarrow> string option \<Rightarrow> env
     \<Rightarrow> ((docref \<times> payload) list \<times> (string \<times> string)) \<times> env" where
  "transaction_fn org_id project_id asset generation asset_id generation_id s =
     (let col = assets_col org_id project_id
      in case (case given asset_id of
                 Some i \<Rightarrow> ((col, i), s)
               | None \<Rightarrow> new_document col s) of
           (asset_ref, s1) \<Rightarrow>
             (let w1 = (asset_ref, plain (model_to_dict asset False));
                  gen_col = collection asset_ref ''generations''
              in case (case given generation_id of
                         Some i \<Rightarrow> ((gen_col, i), s1)
                       | None \<Rightarrow> new_document gen_col s1) of
                   (gen_ref, s2) \<Rightarrow>
                     (let w2 = (gen_ref, plain (model_to_dict generation False))
                      in (([w1, w2], (snd asset_ref, snd gen_ref)), s2))))"

definition create_asset_with_first_generation ::
  "string \<Rightarrow> string \<Rightarrow> model \<Rightarrow> model \<Rightarrow> string option \<Rightarrow> string option \<Rightarrow> env
     \<Rightarrow> asset_with_generations result" where
  "create_asset_with_first_generation org_id project_id asset generation asset_id generation_id s =
     (case run_transaction
             (transaction_fn org_id project_id asset generation asset_id generation_id) s of
        (None, s1) \<Rightarrow> (Inl FirestoreError, s1)
      | (Some (asset_id_created, gen_id_created), s1) \<Rightarrow>
          (case get_asset org_id project_id asset_id_created s1 of
             (Inl e, s2) \<Rightarrow> (Inl e, s2)
           | (Inr asset_model, s2) \<Rightarrow>
               (case get_generation org_id project_id asset_id_created gen_id_created s2 of
                  (Inl e, s3) \<Rightarrow> (Inl e, s3)
                | (Inr gen_model, s3) \<Rightarrow>
                    (case (asset_model, gen_model) of
                       (Some a, Some g) \<Rightarrow>
                         (case construct Asset (wall_clock s3) (dict_all a) of
                            None \<Rightarrow> (Inl ValidationError, s3)
                          | Some a' \<Rightarrow> (Inr (AssetWithGenerations a' (Some [g])), s3))
                     | _ \<Rightarrow> (Inl FirestoreError, s3)))))"

definition get_generation_with_variants ::
  "string \<Rightarrow> string \<Rightarrow> string \<Rightarrow> string \<Rightarrow> env \<Rightarrow> generation_with_variants option result" where
  "get_generation_with_variants org_id project_id asset_id generation_id s =
     (case get_generation org_id project_id asset_id generation_id s of
        (Inl e, s1) \<Rightarrow> (Inl e, s1)
      | (Inr None, s1) \<Rightarrow> (Inr None, s1)
      | (Inr (Some gen), s1) \<Rightarrow>
          (case list_variants org_id project_id asset_id generation_id s1 of
             (Inl e, s2) \<Rightarrow> (Inl e, s2)
           | (Inr vs, s2) \<Rightarrow>
               (let data = dict_all gen;
                    vdata = map dict_all vs;
                    data = AList.update ''id'' (VStr generation_id) data
                in case (construct Generation (wall_clock s2) data,
                         those (map (construct Variant (wall_clock s2)) vdata)) of
                     (Some g, Some vs') \<Rightarrow> (Inr (Some (GenerationWithVariants g (Some vs'))), s2)
                   | _ \<Rightarrow> (Inl ValidationError, s2))))"


section \<open>The REST surface (api/index.py)\<close>

text \<open>
  A request body is the dictionary of the fields the request sets (a JSON \<open>null\<close> is
  \<open>VNone\<close>); the framework has validated it against the request schema before the handler
  runs. Handlers carry the suffix \<open>_endpoint\<close>, since they share their names with the
  accessor's methods.

  A handler catches \<open>FirestoreError\<close> only, and turns it into a 500 response.
\<close>

definition http_error :: "error \<Rightarrow> error" where
  "http_error e = (case e of FirestoreError \<Rightarrow> HTTPException 500 | _ \<Rightarrow> e)"

text \<open>
  Several handlers call accessor methods that \<open>FirestoreAccessor\<close> does not define:
  \<open>delete_project\<close>, \<open>delete_generation\<close>, \<open>update_variant\<close>, \<open>delete_variant\<close>,
  \<open>get_theme\<close>, \<open>update_theme\<close>, \<open>delete_theme\<close>, \<open>get_concept_image\<close>,
  \<open>update_concept_image\<close>, \<open>delete_concept_image\<close>, \<open>update_user\<close>, \<open>delete_user\<close>.
  Looking such a method up raises \<open>AttributeError\<close>, and nothing reaches the store.
\<close>

definition missing_method :: "string \<Rightarrow> env \<Rightarrow> 'a result" where
  "missing_method name s = (Inl (AttributeError name), s)"

definition build_firestore_model :: "model_cls \<Rightarrow> pydict \<Rightarrow> env \<Rightarrow> error + model" where
  "build_firestore_model c data s =
     (case construct c (wall_clock s) data of
        None \<Rightarrow> Inl ValidationError
      | Some m \<Rightarrow>
          (let m = (if hasattr m ''id'' then setattr m ''id'' VNone else m);
               m = (if hasattr m ''created_at'' then setattr m ''created_at'' VNone else m);
               m = (if hasattr m ''updated_at'' then setattr m ''updated_at'' VNone else m)
           in Inr m))"

fun apply_metadata :: "model \<Rightarrow> pydict \<Rightarrow> model" where
  "apply_metadata m [] = m"
| "apply_metadata m ((fld, v) # metadata) =
     apply_metadata (if v \<noteq> VNone \<and> hasattr m fld then setattr m fld v else m) metadata"

text \<open>\<open>payload.dict(exclude_unset=True, exclude_none=True)\<close> of a request body.\<close>

definition body_dict :: "pydict \<Rightarrow> pydict" where
  "body_dict payload = filter (\<lambda>kv. snd kv \<noteq> VNone) payload"

definition require_updates :: "pydict \<Rightarrow> error + pydict" where
  "require_updates payload =
     (let updates = body_dict payload
      in if updates = [] then Inl (HTTPException 400) else Inr updates)"

text \<open>\<open>data.pop("id", None)\<close>: the id the request names, and the data without it.\<close>

definition pop_id :: "pydict \<Rightarrow> string option \<times> pydict" where
  "pop_id data =
     (case map_of data ''id'' of
        Some (VStr i) \<Rightarrow> (Some i, AList.delete ''id'' data)
      | _ \<Rightarrow> (None, AList.delete ''id'' data))"

subsection \<open>POST handlers\<close>

definition create_organization_endpoint :: "pydict \<Rightarrow> env \<Rightarrow> model result" where
  "create_organization_endpoint payload s =
     (case pop_id (body_dict payload) of
        (org_id, data) \<Rightarrow>
          (case build_firestore_model Organization data s of
             Inl e \<Rightarrow> (Inl e, s)
           | Inr org_model \<Rightarrow>
               (case create_organization org_model org_id s of
                  (Inl e, s') \<Rightarrow> (Inl (http_error e), s')
                | (Inr created, s') \<Rightarrow> (Inr created, s'))))"

definition create_project_endpoint :: "string \<Rightarrow> pydict \<Rightarrow> env \<Rightarrow> model result" where
  "create_project_endpoint org_id payload s =
     (case pop_id (body_dict payload) of
        (project_id, data) \<Rightarrow>
          (case build_firestore_model Project data s of
             Inl e \<Rightarrow> (Inl e, s)
           | Inr project_model \<Rightarrow>
               (let project_model = apply_metadata project_model [(''org_id'', VStr org_id)]
                in case create_project org_id project_model project_id s of
                     (Inl e, s') \<Rightarrow> (Inl (http_error e), s')
                   | (Inr created, s') \<Rightarrow> (Inr created, s'))))"

subsection \<open>GET handlers (single document)\<close>

definition get_organization_endpoint :: "string \<Rightarrow> env \<Rightarrow> model result" where
  "get_organization_endpoint org_id s =
     (case get_organization org_id s of
        (Inl e, s') \<Rightarrow> (Inl (http_error e), s')
      | (Inr None, s') \<Rightarrow> (Inl (HTTPException 404), s')
      | (Inr (Some organization), s') \<Rightarrow> (Inr organization, s'))"

definition get_project_endpoint :: "string \<Rightarrow> string \<Rightarrow> env \<Rightarrow> model result" where
  "get_project_endpoint org_id project_id s =
     (case get_project org_id project_id s of
        (Inl e, s') \<Rightarrow> (Inl (http_error e), s')
      | (Inr None, s') \<Rightarrow> (Inl (HTTPException 404), s')
      | (Inr (Some project), s') \<Rightarrow> (Inr project, s'))"

definition get_asset_endpoint :: "string \<Rightarrow> string \<Rightarrow> string \<Rightarrow> env \<Rightarrow> model result" where
  "get_asset_endpoint org_id project_id asset_id s =
     (case get_asset org_id project_id asset_id s of
        (Inl e, s') \<Rightarrow> (Inl (http_error e), s')
      | (Inr None, s') \<Rightarrow> (Inl (HTTPException 404), s')
      | (Inr (Some asset), s') \<Rightarrow> (Inr asset, s'))"

definition get_generation_endpoint :: "string \<Rightarrow> string \<Rightarrow> string \<Rightarrow> string \<Rightarrow> env \<Rightarrow> model result" where
  "get_generation_endpoint org_id project_id asset_id generation_id s =
     (case get_generation org_id project_id asset_id generation_id s of
        (Inl e, s') \<Rightarrow> (Inl (http_error e), s')
      | (Inr None, s') \<Rightarrow> (Inl (HTTPException 404), s')
      | (Inr (Some generation), s') \<Rightarrow> (Inr generation, s'))"

definition get_variant_endpoint :: "string \<Rightarrow> string \<Rightarrow> string \<Rightarrow> string \<Rightarrow> string \<Rightarrow> env \<Rightarrow> model result" where
  "get_variant_endpoint org_id project_id asset_id generation_id variant_id s =
     (case get_variant org_id project_id asset_id generation_id variant_id s of
        (Inl e, s') \<Rightarrow> (Inl (http_error e), s')
      | (Inr None, s') \<Rightarrow> (Inl (HTTPException 404), s')
      | (Inr (Some variant), s') \<Rightarrow> (Inr variant, s'))"

definition get_theme_endpoint :: "string \<Rightarrow> string \<Rightarrow> string \<Rightarrow> env \<Rightarrow> model result" where
  "get_theme_endpoint org_id project_id theme_id s =
     (case (missing_method ''get_theme'' s :: model option result) of
        (Inl e, s') \<Rightarrow> (Inl (http_error e), s')
      | (Inr None, s') \<Rightarrow> (Inl (HTTPException 404), s')
      | (Inr (Some theme), s') \<Rightarrow> (Inr theme, s'))"

definition get_concept_image_endpoint :: "string \<Rightarrow> string \<Rightarrow> string \<Rightarrow> env \<Rightarrow> model result" where
  "get_concept_image_endpoint org_id project_id image_id s =
     (case (missing_method ''get_concept_image'' s :: model option result) of
        (Inl e, s') \<Rightarrow> (Inl (http_error e), s')
      | (Inr None, s') \<Rightarrow> (Inl (HTTPException 404), s')
      | (Inr (Some concept_image), s') \<Rightarrow> (Inr concept_image, s'))"

definition get_user_endpoint :: "string \<Rightarrow> env \<Rightarrow> model result" where
  "get_user_endpoint user_id s =
     (case get_user user_id s of
        (Inl e, s') \<Rightarrow> (Inl (http_error e), s')
      | (Inr None, s') \<Rightarrow> (Inl (HTTPException 404), s')
      | (Inr (Some user), s') \<Rightarrow> (Inr user, s'))"

subsection \<open>PATCH handlers\<close>

definition update_organization_endpoint :: "string \<Rightarrow> pydict \<Rightarrow> env \<Rightarrow> model result" where
  "update_organization_endpoint org_id payload s =
     (case require_updates payload of
        Inl e \<Rightarrow> (Inl e, s)
      | Inr updates \<Rightarrow>
          (case get_organization_endpoint org_id s of
             (Inl e, s1) \<Rightarrow> (Inl e, s1)
           | (Inr found, s1) \<Rightarrow>
               (case update_organization org_id updates s1 of
                  (Inl e, s2) \<Rightarrow> (Inl (http_error e), s2)
                | (Inr u, s2) \<Rightarrow>
                    (case get_organization org_id s2 of
                       (Inl e, s3) \<Rightarrow> (Inl (http_error e), s3)
                     | (Inr None, s3) \<Rightarrow> (Inl AssertionError, s3)
                     | (Inr (Some updated), s3) \<Rightarrow> (Inr updated, s3)))))"

definition update_project_endpoint :: "string \<Rightarrow> string \<Rightarrow> pydict \<Rightarrow> env \<Rightarrow> model result" where
  "update_project_endpoint org_id project_id payload s =
     (case require_updates payload of
        Inl e \<Rightarrow> (Inl e, s)
      | Inr updates \<Rightarrow>
          (case get_project_endpoint org_id project_id s of
             (Inl e, s1) \<Rightarrow> (Inl e, s1)
           | (Inr found, s1) \<Rightarrow>
               (case update_project org_id project_id updates s1 of
                  (Inl e, s2) \<Rightarrow> (Inl (http_error e), s2)
                | (Inr u, s2) \<Rightarrow>
                    (case get_project org_id project_id s2 of
                       (Inl e, s3) \<Rightarrow> (Inl (http_error e), s3)
                     | (Inr None, s3) \<Rightarrow> (Inl AssertionError, s3)
                     | (Inr (Some updated), s3) \<Rightarrow> (Inr updated, s3)))))"

definition update_asset_endpoint :: "string \<Rightarrow> string \<Rightarrow> string \<Rightarrow> pydict \<Rightarrow> env \<Rightarrow> model result" where
  "update_asset_endpoint org_id project_id asset_id payload s =
     (case require_updates payload of
        Inl e \<Rightarrow> (Inl e, s)
      | Inr updates \<Rightarrow>
          (case get_asset_endpoint org_id project_id asset_id s of
             (Inl e, s1) \<Rightarrow> (Inl e, s1)
           | (Inr found, s1) \<Rightarrow>
               (case update_asset org_id project_id asset_id updates s1 of
                  (Inl e, s2) \<Rightarrow> (Inl (http_error e), s2)
                | (Inr u, s2) \<Rightarrow>
                    (case get_asset org_id project_id asset_id s2 of
                       (Inl e, s3) \<Rightarrow> (Inl (http_error e), s3)
                     | (Inr None, s3) \<Rightarrow> (Inl AssertionError, s3)
                     | (Inr (Some updated), s3) \<Rightarrow> (Inr updated, s3)))))"

definition update_generation_endpoint :: "string \<Rightarrow> string \<Rightarrow> string \<Rightarrow> string \<Rightarrow> pydict \<Rightarrow> env \<Rightarrow> model result" where
  "update_generation_endpoint org_id project_id asset_id generation_id payload s =
     (case require_updates payload of
        Inl e \<Rightarrow> (Inl e, s)
      | Inr updates \<Rightarrow>
          (case get_generation_endpoint org_id project_id asset_id generation_id s of
             (Inl e, s1) \<Rightarrow> (Inl e, s1)
           | (Inr found, s1) \<Rightarrow>
               (case update_generation org_id project_id asset_id generation_id updates s1 of
                  (Inl e, s2) \<Rightarrow> (Inl (http_error e), s2)
                | (Inr u, s2) \<Rightarrow>
                    (case get_generation org_id project_id asset_id generation_id s2 of
                       (Inl e, s3) \<Rightarrow> (Inl (http_error e), s3)
                     | (Inr None, s3) \<Rightarrow> (Inl AssertionError, s3)
                     | (Inr (Some updated), s3) \<Rightarrow> (Inr updated, s3)))))"

definition update_variant_endpoint :: "string \<Rightarrow> string \<Rightarrow> string \<Rightarrow> string \<Rightarrow> string \<Rightarrow> pydict \<Rightarrow> env \<Rightarrow> model result" where
  "update_variant_endpoint org_id project_id asset_id generation_id variant_id payload s =
     (case require_updates payload of
        Inl e \<Rightarrow> (Inl e, s)
      | Inr updates \<Rightarrow>
          (case get_variant_endpoint org_id project_id asset_id generation_id variant_id s of
             (Inl e, s1) \<Rightarrow> (Inl e, s1)
           | (Inr found, s1) \<Rightarrow>
               (case (missing_method ''update_variant'' s1 :: unit result) of
                  (Inl e, s2) \<Rightarrow> (Inl (http_error e), s2)
                | (Inr u, s2) \<Rightarrow>
                    (case get_variant org_id project_id asset_id generation_id variant_id s2 of
                       (Inl e, s3) \<Rightarrow> (Inl (http_error e), s3)
                     | (Inr None, s3) \<Rightarrow> (Inl AssertionError, s3)
                     | (Inr (Some updated), s3) \<Rightarrow> (Inr updated, s3)))))"

definition update_theme_endpoint :: "string \<Rightarrow> string \<Rightarrow> string \<Rightarrow> pydict \<Rightarrow> env \<Rightarrow> model result" where
  "update_theme_endpoint org_id project_id theme_id payload s =
     (case require_updates payload of
        Inl e \<Rightarrow> (Inl e, s)
      | Inr updates \<Rightarrow>
          (case get_theme_endpoint org_id project_id theme_id s of
             (Inl e, s1) \<Rightarrow> (Inl e, s1)
           | (Inr found, s1) \<Rightarrow>
               (case (missing_method ''update_theme'' s1 :: unit result) of
                  (Inl e, s2) \<Rightarrow> (Inl (http_error e), s2)
                | (Inr u, s2) \<Rightarrow>
                    (case (missing_method ''get_theme'' s2 :: model option result) of
                       (Inl e, s3) \<Rightarrow> (Inl (http_error e), s3)
                     | (Inr None, s3) \<Rightarrow> (Inl AssertionError, s3)
                     | (Inr (Some updated), s3) \<Rightarrow> (Inr updated, s3)))))"

definition update_concept_image_endpoint :: "string \<Rightarrow> string \<Rightarrow> string \<Rightarrow> pydict \<Rightarrow> env \<Rightarrow> model result" where
  "update_concept_image_endpoint org_id project_id image_id payload s =
     (case require_updates payload of
        Inl e \<Rightarrow> (Inl e, s)
      | Inr updates \<Rightarrow>
          (case get_concept_image_endpoint org_id project_id image_id s of
             (Inl e, s1) \<Rightarrow> (Inl e, s1)
           | (Inr found, s1) \<Rightarrow>
               (case (missing_method ''update_concept_image'' s1 :: unit result) of
                  (Inl e, s2) \<Rightarrow> (Inl (http_error e), s2)
                | (Inr u, s2) \<Rightarrow>
                    (case (missing_method ''get_concept_image'' s2 :: model option result) of
                       (Inl e, s3) \<Rightarrow> (Inl (http_error e), s3)
                     | (Inr None, s3) \<Rightarrow> (Inl AssertionError, s3)
                     | (Inr (Some updated), s3) \<Rightarrow> (Inr updated, s3)))))"

definition update_user_endpoint :: "string \<Rightarrow> pydict \<Rightarrow> env \<Rightarrow> model result" where
  "update_user_endpoint user_id payload s =
     (case require_updates payload of
        Inl e \<Rightarrow> (Inl e, s)
      | Inr updates \<Rightarrow>
          (case get_user_endpoint user_id s of
             (Inl e, s1) \<Rightarrow> (Inl e, s1)
           | (Inr found, s1) \<Rightarrow>
               (case (missing_method ''update_user'' s1 :: unit result) of
                  (Inl e, s2) \<Rightarrow> (Inl (http_error e), s2)
                | (Inr u, s2) \<Rightarrow>
                    (case get_user user_id s2 of
                       (Inl e, s3) \<Rightarrow> (Inl (http_error e), s3)
                     | (Inr None, s3) \<Rightarrow> (Inl AssertionError, s3)
                     | (Inr (Some updated), s3) \<Rightarrow> (Inr updated, s3)))))"

subsection \<open>DELETE handlers\<close>

text \<open>The result is the status code of the response.\<close>

definition delete_organization_endpoint :: "string \<Rightarrow> env \<Rightarrow> nat result" where
  "delete_organization_endpoint org_id s =
     (case get_organization_endpoint org_id s of
        (Inl e, s1) \<Rightarrow> (Inl e, s1)
      | (Inr found, s1) \<Rightarrow>
          (case delete_organization org_id s1 of
             (Inl e, s2) \<Rightarrow> (Inl (http_error e), s2)
           | (Inr u, s2) \<Rightarrow> (Inr 204, s2)))"

definition delete_project_endpoint :: "string \<Rightarrow> string \<Rightarrow> env \<Rightarrow> nat result" where
  "delete_project_endpoint org_id project_id s =
     (case get_project_endpoint org_id project_id s of
        (Inl e, s1) \<Rightarrow> (Inl e, s1)
      | (Inr found, s1) \<Rightarrow>
          (case (missing_method ''delete_project'' s1 :: unit result) of
             (Inl e, s2) \<Rightarrow> (Inl (http_error e), s2)
           | (Inr u, s2) \<Rightarrow> (Inr 204, s2)))"

text \<open>The router: the resource a request addresses selects the handler.\<close>

datatype resource =
    OrganizationAt string
  | ProjectAt string string
  | AssetAt string string string
  | GenerationAt string string string string
  | VariantAt string string string string string
  | ThemeAt string string string
  | ConceptImageAt string string string
  | UserAt string

fun route_patch :: "resource \<Rightarrow> pydict \<Rightarrow> env \<Rightarrow> model result" where
  "route_patch (OrganizationAt org_id) = update_organization_endpoint org_id"
| "route_patch (ProjectAt org_id project_id) = update_project_endpoint org_id project_id"
| "route_patch (AssetAt org_id project_id asset_id) =
     update_asset_endpoint org_id project_id asset_id"
| "route_patch (GenerationAt org_id project_id asset_id generation_id) =
     update_generation_endpoint org_id project_id asset_id generation_id"
| "route_patch (VariantAt org_id project_id asset_id generation_id variant_id) =
     update_variant_endpoint org_id project_id asset_id generation_id variant_id"
| "route_patch (ThemeAt org_id project_id theme_id) =
     update_theme_endpoint org_id project_id theme_id"
| "route_patch (ConceptImageAt org_id project_id image_id) =
     update_concept_image_endpoint org_id project_id image_id"
| "route_patch (UserAt user_id) = update_user_endpoint user_id"

section \<open>Scenarios and auxiliary notions\<close>

text \<open>An empty store whose calls all succeed.\<close>

definition env0 :: env where
  "env0 = \<lparr>docs = [], server_clock = 0, auto_ids = 0, faults = [], rpcs = 0, wall_clock = 0\<rparr>"

text \<open>
  Every document of the first store is a document of the second, and each of its fields
  is unchanged, or is one of the fields \<open>K\<close> and holds a value other than \<open>None\<close>.
\<close>

definition fields_kept ::
  "string set \<Rightarrow> (docref \<times> pydict) list \<Rightarrow> (docref \<times> pydict) list \<Rightarrow> bool" where
  "fields_kept K ds ds' =
     (\<forall>ref d. map_of ds ref = Some d \<longrightarrow>
        (\<exists>d'. map_of ds' ref = Some d' \<and>
           (\<forall>k. map_of d' k = map_of d k \<or>
                (k \<in> K \<and> (\<exists>v'. map_of d' k = Some v' \<and> v' \<noteq> VNone)))))"

text \<open>A store that holds one organization.\<close>

definition env1 :: env where
  "env1 = \<lparr>docs = [((orgs_col, ''org_1''),
                    [(''name'', VStr ''Acme''), (''plan_tier'', VStr ''pro''),
                     (''created_at'', VTime 1), (''updated_at'', VTime 1)])],
           server_clock = 1, auto_ids = 0, faults = [], rpcs = 2, wall_clock = 0\<rparr>"

text \<open>
  The eight collections, each with the ids of its ancestors. The accessor has one Create
  per collection; \<open>create_in\<close> selects it.
\<close>

datatype collection_of =
    Organizations
  | Projects string
  | Assets string string
  | Generations string string string
  | Variants string string string string
  | Themes string string
  | ConceptImages string string
  | Users

fun create_in :: "collection_of \<Rightarrow> model \<Rightarrow> string option \<Rightarrow> env \<Rightarrow> model result" where
  "create_in Organizations = create_organization"
| "create_in (Projects org_id) = create_project org_id"
| "create_in (Assets org_id project_id) = create_asset org_id project_id"
| "create_in (Generations org_id project_id asset_id) = create_generation org_id project_id asset_id"
| "create_in (Variants org_id project_id asset_id generation_id) =
     create_variant org_id project_id asset_id generation_id"
| "create_in (Themes org_id project_id) = create_theme org_id project_id"
| "create_in (ConceptImages org_id project_id) = create_concept_image org_id project_id"
| "create_in Users = create_user"

fun col_path :: "collection_of \<Rightarrow> path" where
  "col_path Organizations = orgs_col"
| "col_path (Projects org_id) = projects_col org_id"
| "col_path (Assets org_id project_id) = assets_col org_id project_id"
| "col_path (Generations org_id project_id asset_id) = generations_col org_id project_id asset_id"
| "col_path (Variants org_id project_id asset_id generation_id) =
     variants_col org_id project_id asset_id generation_id"
| "col_path (Themes org_id project_id) = themes_col org_id project_id"
| "col_path (ConceptImages org_id project_id) = concept_images_col org_id project_id"
| "col_path Users = users_col"

fun col_cls :: "collection_of \<Rightarrow> model_cls" where
  "col_cls Organizations = Organization"
| "col_cls (Projects org_id) = Project"
| "col_cls (Assets org_id project_id) = Asset"
| "col_cls (Generations org_id project_id asset_id) = Generation"
| "col_cls (Variants org_id project_id asset_id generation_id) = Variant"
| "col_cls (Themes org_id project_id) = Theme"
| "col_cls (ConceptImages org_id project_id) = ConceptImage"
| "col_cls Users = User"

text \<open>The ancestor ids an accessor method of the collection passes to \<open>_attach_metadata\<close>.\<close>

fun col_meta :: "collection_of \<Rightarrow> pydict" where
  "col_meta Organizations = []"
| "col_meta (Projects org_id) = [(''org_id'', VStr org_id)]"
| "col_meta (Assets org_id project_id) =
     [(''org_id'', VStr org_id), (''project_id'', VStr project_id)]"
| "col_meta (Generations org_id project_id asset_id) =
     [(''org_id'', VStr org_id), (''project_id'', VStr project_id), (''asset_id'', VStr asset_id)]"
| "col_meta (Variants org_id project_id asset_id generation_id) =
     [(''org_id'', VStr org_id), (''project_id'', VStr project_id), (''asset_id'', VStr asset_id),
      (''generation_id'', VStr generation_id)]"
| "col_meta (Themes org_id project_id) =
     [(''org_id'', VStr org_id), (''project_id'', VStr project_id)]"
| "col_meta (ConceptImages org_id project_id) =
     [(''org_id'', VStr org_id), (''project_id'', VStr project_id)]"
| "col_meta Users = []"


text \<open>
  The accessor's Get of a collection. \<open>FirestoreAccessor\<close> defines no \<open>get_theme\<close> and
  no \<open>get_concept_image\<close>.
\<close>

fun get_in :: "collection_of \<Rightarrow> string \<Rightarrow> env \<Rightarrow> model option result" where
  "get_in Organizations = get_organization"
| "get_in (Projects org_id) = get_project org_id"
| "get_in (Assets org_id project_id) = get_asset org_id project_id"
| "get_in (Generations org_id project_id asset_id) = get_generation org_id project_id asset_id"
| "get_in (Variants org_id project_id asset_id generation_id) =
     get_variant org_id project_id asset_id generation_id"
| "get_in (Themes org_id project_id) = (\<lambda>theme_id. missing_method ''get_theme'')"
| "get_in (ConceptImages org_id project_id) = (\<lambda>image_id. missing_method ''get_concept_image'')"
| "get_in Users = get_user"

text \<open>Whether the next call to the store raises.\<close>

definition next_fails :: "env \<Rightarrow> bool" where
  "next_fails s = (case faults s of [] \<Rightarrow> False | f # fs \<Rightarrow> f)"

text \<open>
  Two organization models: one as the REST layer builds it (no \<open>created_at\<close>), one
  carrying a client-side \<open>created_at\<close>, as \<open>Organization(name=...)\<close> does by default.
\<close>

definition acme :: model where
  "acme = Model Organization
     [(''id'', VNone), (''org_id'', VNone), (''project_id'', VNone), (''created_at'', VNone),
      (''updated_at'', VNone), (''name'', VStr ''Acme''), (''owner_user_id'', VNone),
      (''plan_tier'', VNone), (''members_summary'', VNone)]"

definition acme_dated :: model where
  "acme_dated = Model Organization
     [(''id'', VNone), (''org_id'', VNone), (''project_id'', VNone), (''created_at'', VTime 100),
      (''updated_at'', VNone), (''name'', VStr ''Acme''), (''owner_user_id'', VNone),
      (''plan_tier'', VNone), (''members_summary'', VNone)]"

text \<open>A project model as the REST layer builds it: the path's \<open>org_id\<close> applied.\<close>

definition demo_project :: model where
  "demo_project = Model Project
     [(''id'', VNone), (''org_id'', VStr ''org_1''), (''project_id'', VNone),
      (''created_at'', VNone), (''updated_at'', VNone), (''name'', VStr ''Demo''),
      (''description'', VNone), (''settings'', VDict []), (''style_guide_markdown'', VNone),
      (''style_guide'', VNone), (''asset_count'', VInt 0), (''theme_count'', VInt 0)]"

text \<open>
  An asset and a generation as \<open>Asset(name="Hero")\<close> and
  \<open>Generation(prompt_text="a hero")\<close> construct them, the client clock standing at 100.
\<close>

definition hero_asset :: model where
  "hero_asset = Model Asset
     [(''id'', VNone), (''org_id'', VNone), (''project_id'', VNone), (''created_at'', VTime 100),
      (''updated_at'', VNone), (''name'', VStr ''Hero''), (''description'', VNone),
      (''prompt'', VNone), (''size'', VNone), (''width'', VNone), (''height'', VNone),
      (''theme_id'', VNone), (''theme_name'', VNone), (''concept_image_ids'', VList []),
      (''tags'', VList []), (''created_by'', VNone), (''final_variant_id'', VNone),
      (''current_image_url'', VNone), (''latest_generation_id'', VNone),
      (''latest_generation_at'', VNone)]"

definition hero_generation :: model where
  "hero_generation = Model Generation
     [(''id'', VNone), (''org_id'', VNone), (''project_id'', VNone), (''created_at'', VTime 100),
      (''updated_at'', VNone), (''prompt_text'', VStr ''a hero''), (''parameters'', VDict []),
      (''theme_id'', VNone), (''theme_snapshot'', VNone), (''concept_image_ids'', VList []),
      (''concept_image_weights'', VNone), (''variant_count'', VInt 0), (''triggered_by'', VNone),
      (''status'', VStr ''pending''), (''notes'', VNone), (''version_number'', VNone),
      (''variant_summary'', VNone)]"

text \<open>The empty store, with the next call to the store failing.\<close>

definition env_fault :: env where
  "env_fault = env0\<lparr>faults := [True]\<rparr>"

text \<open>
  The scenario of the specification, run against the accessor: each step runs in the
  state the step before has left; the first error ends the run.
\<close>

definition then_do :: "(env \<Rightarrow> 'a result) \<Rightarrow> ('a \<Rightarrow> env \<Rightarrow> 'b result) \<Rightarrow> env \<Rightarrow> 'b result" where
  "then_do step rest s = (case step s of (Inl e, s') \<Rightarrow> (Inl e, s') | (Inr x, s') \<Rightarrow> rest x s')"

text \<open>\<open>Model(**data)\<close> in client code: a validation error when the data is not accepted.\<close>

definition new_model :: "model_cls \<Rightarrow> pydict \<Rightarrow> env \<Rightarrow> model result" where
  "new_model c data s =
     (case construct c (wall_clock s) data of
        None \<Rightarrow> (Inl ValidationError, s)
      | Some m \<Rightarrow> (Inr m, s))"

definition scenario :: "env \<Rightarrow> generation_with_variants option result" where
  "scenario =
     then_do (new_model Organization [(''name'', VStr ''Acme'')]) (\<lambda>org.
     then_do (create_organization org (Some ''org_1'')) (\<lambda>created_org.
     then_do (new_model Project [(''name'', VStr ''Demo'')]) (\<lambda>project.
     then_do (create_project ''org_1'' project (Some ''proj_1'')) (\<lambda>created_project.
     then_do (new_model Asset [(''name'', VStr ''Hero'')]) (\<lambda>asset.
     then_do (create_asset ''org_1'' ''proj_1'' asset (Some ''asset_1'')) (\<lambda>created_asset.
     then_do (new_model Generation [(''prompt_text'', VStr ''a hero'')]) (\<lambda>generation.
     then_do (create_generation ''org_1'' ''proj_1'' ''asset_1'' generation (Some ''gen_1''))
       (\<lambda>created_generation.
     then_do (update_generation ''org_1'' ''proj_1'' ''asset_1'' ''gen_1''
                [(''status'', VStr ''completed'')]) (\<lambda>updated.
     then_do (new_model Variant [(''image_url'', VStr ''gs://bucket/one.png'')]) (\<lambda>variant1.
     then_do (create_variant ''org_1'' ''proj_1'' ''asset_1'' ''gen_1'' variant1 (Some ''var_1''))
       (\<lambda>created_variant1.
     then_do (new_model Variant [(''image_url'', VStr ''gs://bucket/two.png'')]) (\<lambda>variant2.
     then_do (create_variant ''org_1'' ''proj_1'' ''asset_1'' ''gen_1'' variant2 (Some ''var_2''))
       (\<lambda>created_variant2.
     get_generation_with_variants ''org_1'' ''proj_1'' ''asset_1'' ''gen_1'')))))))))))))"

definition scenario_variants :: "model list" where
  "scenario_variants =
     (case fst (scenario env0) of
        Inr (Some g) \<Rightarrow> (case variants g of Some vs \<Rightarrow> vs | None \<Rightarrow> [])
      | _ \<Rightarrow> [])"

definition ancestor_ids :: "model \<Rightarrow> val option list" where
  "ancestor_ids v =
     [getattr v ''org_id'', getattr v ''project_id'', getattr v ''asset_id'',
      getattr v ''generation_id'']"

text \<open>The store after the POST of project \<open>proj_1\<close> under \<open>org_1\<close>.\<close>

definition env_project :: env where
  "env_project =
     snd (create_project_endpoint ''org_1'' [(''name'', VStr ''Demo''), (''id'', VStr ''proj_1'')] env0)"

text \<open>
  A project as \<open>Project(name="Demo")\<close> constructs it, the client clock standing at 0: only
  \<open>name\<close> is set by the caller, the other fields hold their defaults.
\<close>

definition bare_project :: model where
  "bare_project = Model Project
     [(''id'', VNone), (''org_id'', VNone), (''project_id'', VNone),
      (''created_at'', VTime 0), (''updated_at'', VNone), (''name'', VStr ''Demo''),
      (''description'', VNone), (''settings'', VDict []), (''style_guide_markdown'', VNone),
      (''style_guide'', VNone), (''asset_count'', VInt 0), (''theme_count'', VInt 0)]"

section \<open>Verified properties\<close>

subsection \<open>Empty updates\<close>

lemma require_updates_empty: "require_updates [] = Inl (HTTPException 400)"
  by (simp add: require_updates_def body_dict_def)

lemmas patch_defs = update_organization_endpoint_def update_project_endpoint_def
  update_asset_endpoint_def update_generation_endpoint_def update_variant_endpoint_def
  update_theme_endpoint_def update_concept_image_endpoint_def update_user_endpoint_def

lemma route_patch_rejected:
  "require_updates payload = Inl e \<Longrightarrow> route_patch r payload s = (Inl e, s)"
  by (cases r) (simp_all add: patch_defs)

text \<open>
  Claim C8. Every PATCH handler answers a request with an empty field map with a 400
  error and returns the state it was given: no call has gone to the store (the call
  counter \<open>rpcs\<close> is part of the state), neither the pre-existence Get nor the update.
\<close>

theorem empty_update_rejected:
  "route_patch r [] s = (Inl (HTTPException 400), s)"
  by (rule route_patch_rejected [OF require_updates_empty])

subsection \<open>What reads leave unchanged\<close>

lemma rpc_frame:
  "rpc s = (b, s') \<Longrightarrow>
     docs s' = docs s \<and> server_clock s' = server_clock s \<and> wall_clock s' = wall_clock s \<and>
     auto_ids s' = auto_ids s"
  by (auto simp: rpc_def split: list.splits)

lemma doc_get_frame:
  "doc_get ref s = (r, s') \<Longrightarrow>
     docs s' = docs s \<and> server_clock s' = server_clock s \<and> wall_clock s' = wall_clock s \<and>
     auto_ids s' = auto_ids s"
  by (auto simp: doc_get_def split: prod.splits bool.splits dest: rpc_frame)

lemma get_doc_frame:
  "get_doc ref c s = (r, s') \<Longrightarrow>
     docs s' = docs s \<and> server_clock s' = server_clock s \<and> wall_clock s' = wall_clock s \<and>
     auto_ids s' = auto_ids s"
  by (auto simp: get_doc_def split: prod.splits option.splits dest: doc_get_frame)

lemma get_frames:
  "get_organization a s = (r, s') \<Longrightarrow> docs s' = docs s"
  "get_project a b s = (r, s') \<Longrightarrow> docs s' = docs s"
  "get_asset a b c s = (r, s') \<Longrightarrow> docs s' = docs s"
  "get_generation a b c d s = (r, s') \<Longrightarrow> docs s' = docs s"
  "get_variant a b c d e s = (r, s') \<Longrightarrow> docs s' = docs s"
  "get_user a s = (r, s') \<Longrightarrow> docs s' = docs s"
  by (auto simp: get_organization_def get_project_def get_asset_def get_generation_def
      get_variant_def get_user_def split: prod.splits sum.splits option.splits dest: get_doc_frame)

lemma missing_method_frame: "missing_method n s = (r, s') \<Longrightarrow> s' = s"
  by (simp add: missing_method_def)

lemma get_endpoint_frames:
  "get_organization_endpoint a s = (r, s') \<Longrightarrow> docs s' = docs s"
  "get_project_endpoint a b s = (r, s') \<Longrightarrow> docs s' = docs s"
  "get_asset_endpoint a b c s = (r, s') \<Longrightarrow> docs s' = docs s"
  "get_generation_endpoint a b c d s = (r, s') \<Longrightarrow> docs s' = docs s"
  "get_variant_endpoint a b c d e s = (r, s') \<Longrightarrow> docs s' = docs s"
  "get_theme_endpoint a b c s = (r, s') \<Longrightarrow> docs s' = docs s"
  "get_concept_image_endpoint a b c s = (r, s') \<Longrightarrow> docs s' = docs s"
  "get_user_endpoint a s = (r, s') \<Longrightarrow> docs s' = docs s"
  by (auto simp: get_organization_endpoint_def get_project_endpoint_def get_asset_endpoint_def
      get_generation_endpoint_def get_variant_endpoint_def get_theme_endpoint_def
      get_concept_image_endpoint_def get_user_endpoint_def missing_method_def
      split: prod.splits sum.splits option.splits dest: get_frames)

subsection \<open>Null fields in updates\<close>

lemma fields_kept_refl: "fields_kept K ds ds"
  by (auto simp: fields_kept_def)

lemma fields_kept_eq: "ds' = ds \<Longrightarrow> fields_kept K ds ds'"
  by (simp add: fields_kept_refl)

lemma merge_fields_effect:
  "\<forall>kv \<in> set upd. snd kv \<noteq> VNone \<and> fst kv \<in> K \<Longrightarrow>
     map_of (merge_fields upd d) k = map_of d k \<or>
     (k \<in> K \<and> (\<exists>v'. map_of (merge_fields upd d) k = Some v' \<and> v' \<noteq> VNone))"
proof (induction upd arbitrary: d)
  case Nil
  then show ?case by (simp add: merge_fields_def)
next
  case (Cons x upd)
  obtain k' w where x: "x = (k', w)" by (cases x)
  from Cons.prems x have w: "w \<noteq> VNone" "k' \<in> K" by simp_all
  have step: "map_of (AList.update k' w d) k = map_of d k \<or>
      (k \<in> K \<and> map_of (AList.update k' w d) k = Some w)"
    using w by (simp add: update_conv')
  have m: "merge_fields (x # upd) d = merge_fields upd (AList.update k' w d)"
    by (simp add: merge_fields_def x)
  have rest: "\<forall>kv \<in> set upd. snd kv \<noteq> VNone \<and> fst kv \<in> K" using Cons.prems by simp
  have keep: "k \<in> K \<Longrightarrow> map_of d0 k = Some w \<Longrightarrow>
      \<exists>v'. map_of (merge_fields upd d0) k = Some v' \<and> v' \<noteq> VNone" for d0
    using Cons.IH [OF rest, of d0] w by auto
  show ?case
    unfolding m using Cons.IH [OF rest, of "AList.update k' w d"] step keep by auto
qed

lemma set_update_sub: "set (AList.update k v al) \<subseteq> insert (k, v) (set al)"
  by (induction al) auto

lemma resolve_plain_nonnull:
  assumes "\<forall>kv \<in> set updates. snd kv \<noteq> VNone"
  shows "\<forall>kv \<in> set (resolve t (AList.update ''updated_at'' SERVER_TIMESTAMP (plain updates))).
           snd kv \<noteq> VNone \<and> fst kv \<in> insert ''updated_at'' (fst ` set updates)"
proof
  fix kv
  assume "kv \<in> set (resolve t (AList.update ''updated_at'' SERVER_TIMESTAMP (plain updates)))"
  then obtain k w where kw: "(k, w) \<in> set (AList.update ''updated_at'' SERVER_TIMESTAMP (plain updates))"
    and kv: "kv = (k, case w of Plain v \<Rightarrow> v | SERVER_TIMESTAMP \<Rightarrow> VTime t)"
    by (auto simp: resolve_def)
  from kw set_update_sub have "(k, w) = (''updated_at'', SERVER_TIMESTAMP) \<or> (k, w) \<in> set (plain updates)"
    by fastforce
  then show "snd kv \<noteq> VNone \<and> fst kv \<in> insert ''updated_at'' (fst ` set updates)"
    using assms kv by (force simp: plain_def)
qed

lemma doc_update_fields_kept:
  assumes "doc_update ref p s = (r, s')"
    "\<forall>kv \<in> set (resolve (Suc (server_clock s)) p). snd kv \<noteq> VNone \<and> fst kv \<in> K"
  shows "fields_kept K (docs s) (docs s')"
proof (cases "rpc s")
  case (Pair b s1)
  note fr = rpc_frame [OF Pair]
  show ?thesis
  proof (cases "b \<and> map_of (docs s1) ref \<noteq> None")
    case False
    with assms(1) Pair fr have "docs s' = docs s"
      by (auto simp: doc_update_def split: option.splits bool.splits)
    then show ?thesis by (simp add: fields_kept_refl)
  next
    case True
    then obtain d where d: "map_of (docs s) ref = Some d" using fr by auto
    with assms(1) Pair fr True have s': "docs s' =
        AList.update ref (merge_fields (resolve (Suc (server_clock s)) p) d) (docs s)"
      by (auto simp: doc_update_def Let_def)
    show ?thesis
      unfolding fields_kept_def s'
      using merge_fields_effect [OF assms(2)] d
      by (auto simp: update_conv')
  qed
qed

lemma update_doc_fields_kept:
  assumes "update_doc ref updates True s = (r, s')" "\<forall>kv \<in> set updates. snd kv \<noteq> VNone"
  shows "fields_kept (insert ''updated_at'' (fst ` set updates)) (docs s) (docs s')"
proof -
  obtain b where "doc_update ref (AList.update ''updated_at'' SERVER_TIMESTAMP (plain updates)) s = (b, s')"
    using assms(1) by (auto simp: update_doc_def Let_def split: prod.splits bool.splits)
  from doc_update_fields_kept [OF this resolve_plain_nonnull [OF assms(2)]] show ?thesis .
qed

lemma body_dict_nonnull: "\<forall>kv \<in> set (body_dict payload). snd kv \<noteq> VNone"
  by (simp add: body_dict_def)

lemma require_updates_Inr:
  "require_updates payload = Inr updates \<Longrightarrow> updates = body_dict payload"
  by (auto simp: require_updates_def Let_def split: if_splits)

lemma update_frames:
  assumes "\<forall>kv \<in> set updates. snd kv \<noteq> VNone" "K = insert ''updated_at'' (fst ` set updates)"
  shows "update_organization a updates s = (r, s') \<Longrightarrow> fields_kept K (docs s) (docs s')"
    and "update_project a b updates s = (r1, s1) \<Longrightarrow> fields_kept K (docs s) (docs s1)"
    and "update_asset a b c updates s = (r2, s2) \<Longrightarrow> fields_kept K (docs s) (docs s2)"
    and "update_generation a b c d updates s = (r3, s3) \<Longrightarrow> fields_kept K (docs s) (docs s3)"
  using assms
  by (auto simp: update_organization_def update_project_def update_asset_def update_generation_def
      intro: update_doc_fields_kept)

lemma patch_fields_kept:
  "fields_kept (insert ''updated_at'' (fst ` set (body_dict payload)))
     (docs s) (docs (snd (route_patch r payload s)))"
proof (cases "require_updates payload")
  case (Inl e)
  then show ?thesis by (simp add: route_patch_rejected fields_kept_refl)
next
  case (Inr updates)
  then have u: "updates = body_dict payload" by (rule require_updates_Inr)
  have nn: "\<forall>kv \<in> set updates. snd kv \<noteq> VNone"
    using body_dict_nonnull u by blast
  note upd = update_frames [OF nn refl, unfolded u]
  show ?thesis
  proof (cases r)
    case (OrganizationAt a)
    then show ?thesis using Inr [unfolded u]
      by (auto simp: update_organization_endpoint_def split: prod.splits sum.splits option.splits
          dest!: get_endpoint_frames get_frames upd(1) intro: fields_kept_eq)
  next
    case (ProjectAt a b)
    then show ?thesis using Inr [unfolded u]
      by (auto simp: update_project_endpoint_def split: prod.splits sum.splits option.splits
          dest!: get_endpoint_frames get_frames upd(2) intro: fields_kept_eq)
  next
    case (AssetAt a b c)
    then show ?thesis using Inr [unfolded u]
      by (auto simp: update_asset_endpoint_def split: prod.splits sum.splits option.splits
          dest!: get_endpoint_frames get_frames upd(3) intro: fields_kept_eq)
  next
    case (GenerationAt a b c d)
    then show ?thesis using Inr [unfolded u]
      by (auto simp: update_generation_endpoint_def split: prod.splits sum.splits option.splits
          dest!: get_endpoint_frames get_frames upd(4) intro: fields_kept_eq)
  next
    case (VariantAt a b c d e)
    then show ?thesis using Inr
      by (auto simp: update_variant_endpoint_def missing_method_def
          split: prod.splits sum.splits option.splits
          dest!: get_endpoint_frames get_frames intro: fields_kept_eq)
  next
    case (ThemeAt a b c)
    then show ?thesis using Inr
      by (auto simp: update_theme_endpoint_def missing_method_def
          split: prod.splits sum.splits option.splits
          dest!: get_endpoint_frames get_frames intro: fields_kept_eq)
  next
    case (ConceptImageAt a b c)
    then show ?thesis using Inr
      by (auto simp: update_concept_image_endpoint_def missing_method_def
          split: prod.splits sum.splits option.splits
          dest!: get_endpoint_frames get_frames intro: fields_kept_eq)
  next
    case (UserAt a)
    then show ?thesis using Inr
      by (auto simp: update_user_endpoint_def missing_method_def
          split: prod.splits sum.splits option.splits
          dest!: get_endpoint_frames get_frames intro: fields_kept_eq)
  qed
qed

lemma all_null_body: "\<forall>kv \<in> set payload. snd kv = VNone \<Longrightarrow> require_updates payload = Inl (HTTPException 400)"
  by (auto simp: require_updates_def body_dict_def filter_empty_conv)

text \<open>
  Claim C10. For every PATCH handler: a body whose fields are all null is rejected with
  a 400 error and the state is returned as it was; the updates handed on are the body
  without its null-valued fields, so none of them is null; and whatever the outcome of
  the request, every stored document is still there afterwards and each of its fields is
  either unchanged or named by a non-null entry of the body (or \<open>updated_at\<close>) and
  holds a value other than \<open>None\<close>. So no update clears a field to null, and a null
  entry of the body leaves the stored field as it is.
\<close>

theorem null_fields_dropped:
  "((\<forall>kv \<in> set payload. snd kv = VNone) \<longrightarrow>
      route_patch r payload s = (Inl (HTTPException 400), s)) \<and>
   (\<forall>updates. require_updates payload = Inr updates \<longrightarrow>
      updates = filter (\<lambda>kv. snd kv \<noteq> VNone) payload \<and> VNone \<notin> snd ` set updates) \<and>
   (\<forall>ref d. map_of (docs s) ref = Some d \<longrightarrow>
      (\<exists>d'. map_of (docs (snd (route_patch r payload s))) ref = Some d' \<and>
         (\<forall>k. map_of d' k = map_of d k \<or>
              (k \<in> insert ''updated_at'' (fst ` set (filter (\<lambda>kv. snd kv \<noteq> VNone) payload)) \<and>
               (\<exists>v'. map_of d' k = Some v' \<and> v' \<noteq> VNone)))))"
proof (intro conjI)
  show "(\<forall>kv \<in> set payload. snd kv = VNone) \<longrightarrow>
      route_patch r payload s = (Inl (HTTPException 400), s)"
    using all_null_body route_patch_rejected by blast
  show "\<forall>updates. require_updates payload = Inr updates \<longrightarrow>
      updates = filter (\<lambda>kv. snd kv \<noteq> VNone) payload \<and> VNone \<notin> snd ` set updates"
    using require_updates_Inr [of payload] by (auto simp: body_dict_def)
  show "\<forall>ref d. map_of (docs s) ref = Some d \<longrightarrow>
      (\<exists>d'. map_of (docs (snd (route_patch r payload s))) ref = Some d' \<and>
         (\<forall>k. map_of d' k = map_of d k \<or>
              (k \<in> insert ''updated_at'' (fst ` set (filter (\<lambda>kv. snd kv \<noteq> VNone) payload)) \<and>
               (\<exists>v'. map_of d' k = Some v' \<and> v' \<noteq> VNone))))"
    using patch_fields_kept [of payload s r] unfolding fields_kept_def body_dict_def by blast
qed

theorem null_fields_dropped_witness:
  "route_patch (OrganizationAt ''org_1'') [(''plan_tier'', VNone)] env1 = (Inl (HTTPException 400), env1) \<and>
   require_updates [(''plan_tier'', VNone), (''name'', VStr ''Bolt'')] = Inr [(''name'', VStr ''Bolt'')] \<and>
   (\<exists>d'. map_of (docs (snd (route_patch (OrganizationAt ''org_1'')
                  [(''plan_tier'', VNone), (''name'', VStr ''Bolt'')] env1))) (orgs_col, ''org_1'') = Some d' \<and>
         map_of d' ''plan_tier'' = Some (VStr ''pro''))"
proof -
  let ?p = "[(''plan_tier'', VNone), (''name'', VStr ''Bolt'')]"
  let ?d = "[(''name'', VStr ''Acme''), (''plan_tier'', VStr ''pro''),
                     (''created_at'', VTime 1), (''updated_at'', VTime 1)]"
  have a: "route_patch (OrganizationAt ''org_1'') [(''plan_tier'', VNone)] env1 = (Inl (HTTPException 400), env1)"
    using null_fields_dropped [of "[(''plan_tier'', VNone)]" "OrganizationAt ''org_1''" env1] by simp
  have b0: "require_updates ?p = Inr [(''name'', VStr ''Bolt'')]"
    by (simp add: require_updates_def body_dict_def)
  have d: "map_of (docs env1) (orgs_col, ''org_1'') = Some ?d"
    by (simp add: env1_def)
  from null_fields_dropped [of ?p "OrganizationAt ''org_1''" env1] d
  obtain d' where d': "map_of (docs (snd (route_patch (OrganizationAt ''org_1'') ?p env1))) (orgs_col, ''org_1'') = Some d'"
    and k: "\<forall>k. map_of d' k = map_of ?d k \<or>
              (k \<in> insert ''updated_at'' (fst ` set (filter (\<lambda>kv. snd kv \<noteq> VNone) ?p)) \<and>
               (\<exists>v'. map_of d' k = Some v' \<and> v' \<noteq> VNone))"
    by blast
  from k [rule_format, of "''plan_tier''"] have "map_of d' ''plan_tier'' = Some (VStr ''pro'')"
    by simp
  with a b0 d' show ?thesis by blast
qed

subsection \<open>The schema\<close>

lemmas create_defs = create_organization_def create_project_def create_asset_def
  create_generation_def create_variant_def create_theme_def create_concept_image_def
  create_user_def

lemma create_in_unfold:
  "create_in col m doc_id s =
     (case create_doc (col_path col) (model_to_dict m False) doc_id True s of
        (Inl e, s1) \<Rightarrow> (Inl e, s1)
      | (Inr doc_ref, s1) \<Rightarrow>
          (case get_doc doc_ref (col_cls col) s1 of
             (Inl e, s2) \<Rightarrow> (Inl e, s2)
           | (Inr None, s2) \<Rightarrow> (Inl FirestoreError, s2)
           | (Inr (Some created), s2) \<Rightarrow> (Inr (attach_metadata created (col_meta col)), s2)))"
  by (cases col) (auto simp: create_defs split: prod.splits sum.splits option.splits)

lemma fields_distinct: "distinct (map fname (fields_of c))"
  by (cases c) (simp_all add: FirestoreBase_def opt_def)

lemma base_fields: "set FirestoreBase \<subseteq> set (fields_of c)"
  by (cases c) auto

lemma base_field_names:
  "opt ''id'' TStr \<in> set (fields_of c)"
  "opt ''updated_at'' TTime \<in> set (fields_of c)"
  "Field ''created_at'' TTime True DefaultNow \<in> set (fields_of c)"
  using base_fields [of c] by (auto simp: FirestoreBase_def)

lemma nullable_not_required:
  "f \<in> set (fields_of c) \<Longrightarrow> nullable f \<Longrightarrow> fdefault f \<noteq> Required"
  by (cases c) (auto simp: FirestoreBase_def opt_def)

text \<open>What the model is built from when the data comes from a valid model.\<close>

lemma build_attrs_Some:
  "\<forall>f \<in> set fs. field_value now data f \<noteq> None \<Longrightarrow>
     build_attrs now data fs = Some (map (\<lambda>f. (fname f, the (field_value now data f))) fs)"
  by (induction fs) auto

lemma build_attrs_lookup:
  "build_attrs now data fs = Some r \<Longrightarrow> distinct (map fname fs) \<Longrightarrow> f \<in> set fs \<Longrightarrow>
     map_of r (fname f) = field_value now data f"
proof (induction fs arbitrary: r)
  case Nil
  then show ?case by simp
next
  case (Cons g fs)
  then show ?case
    by (auto split: option.splits simp: image_iff)
qed

lemma build_attrs_keys:
  "build_attrs now data fs = Some r \<Longrightarrow> map fst r = map fname fs"
  by (induction fs arbitrary: r) (auto split: option.splits)

lemma build_attrs_accepts:
  "build_attrs now data fs = Some r \<Longrightarrow> f \<in> set fs \<Longrightarrow> map_of data (fname f) = Some v \<Longrightarrow>
     accepts f v"
  by (induction fs arbitrary: r) (auto split: option.splits if_splits simp: field_value_def)



subsection \<open>Lookup in payloads and stored documents\<close>

lemma map_of_resolve:
  "map_of (resolve t p) k =
     map_option (\<lambda>w. case w of Plain v \<Rightarrow> v | SERVER_TIMESTAMP \<Rightarrow> VTime t) (map_of p k)"
  by (induction p) (auto simp: resolve_def)

lemma map_of_plain: "map_of (plain data) k = map_option Plain (map_of data k)"
  by (induction data) (auto simp: plain_def)

lemma resolve_plain: "resolve t (plain data) = data"
  by (induction data) (auto simp: resolve_def plain_def)

lemma in_keys_iff: "k \<in> fst ` set al \<longleftrightarrow> map_of al k \<noteq> None"
  by (simp add: map_of_eq_None_iff)

lemma map_of_create_payload:
  "map_of (create_payload data True) k =
     (if k = ''updated_at'' then Some SERVER_TIMESTAMP
      else if k = ''created_at'' then
        (case map_of data ''created_at'' of
           Some v \<Rightarrow> Some (Plain v)
         | None \<Rightarrow> Some SERVER_TIMESTAMP)
      else map_option Plain (map_of data k))"
  by (auto simp: create_payload_def Let_def update_conv' in_keys_iff map_of_plain
      split: option.splits)

lemma map_of_stored:
  "map_of (resolve t (create_payload data True)) k =
     (if k = ''updated_at'' then Some (VTime t)
      else if k = ''created_at'' then
        (case map_of data ''created_at'' of Some v \<Rightarrow> Some v | None \<Rightarrow> Some (VTime t))
      else map_of data k)"
  by (auto simp: map_of_resolve map_of_create_payload option.map_comp comp_def
      option.map_ident split: option.splits)

lemma map_of_filter_distinct:
  "distinct (map fst xs) \<Longrightarrow>
     map_of (filter P xs) k =
       (case map_of xs k of Some v \<Rightarrow> if P (k, v) then Some v else None | None \<Rightarrow> None)"
proof (induction xs)
  case Nil
  then show ?case by simp
next
  case (Cons x xs)
  obtain k' v' where x: "x = (k', v')" by (cases x)
  from Cons.prems x have "map_of xs k' = None"
    by (simp add: map_of_eq_None_iff)
  then have "map_of (filter P xs) k' = None"
    by (metis (no_types, lifting) domIff dom_map_of_conv_image_fst filter_is_subset image_mono
        subsetD)
  with Cons x show ?case
    by (auto split: option.splits)
qed

lemma map_of_model_to_dict:
  "distinct (map fst (attrs m)) \<Longrightarrow>
     map_of (model_to_dict m False) k =
       (if k = ''id'' then None
        else case map_of (attrs m) k of
               Some v \<Rightarrow> if v = VNone then None else Some v
             | None \<Rightarrow> None)"
  by (auto simp: model_to_dict_def Let_def dict_exclude_none_def delete_conv'
      map_of_filter_distinct in_keys_iff split: option.splits)

subsection \<open>Valid models\<close>

lemma valid_model_distinct: "valid_model m \<Longrightarrow> distinct (map fst (attrs m))"
  by (simp add: valid_model_def fields_distinct)

lemma all2_lookup:
  "list_all2 (\<lambda>kv f. accepts f (snd kv)) xs fs \<Longrightarrow> map fst xs = map fname fs \<Longrightarrow>
     distinct (map fname fs) \<Longrightarrow> f \<in> set fs \<Longrightarrow>
     \<exists>v. map_of xs (fname f) = Some v \<and> accepts f v"
proof (induction xs fs rule: list_all2_induct)
  case Nil
  then show ?case by simp
next
  case (Cons x xs g fs)
  then show ?case by (cases x) (auto simp: image_iff)
qed

lemma valid_model_field:
  "valid_model m \<Longrightarrow> f \<in> set (fields_of (cls m)) \<Longrightarrow>
     \<exists>v. map_of (attrs m) (fname f) = Some v \<and> accepts f v"
  unfolding valid_model_def using all2_lookup fields_distinct by blast

lemma valid_model_key:
  "valid_model m \<Longrightarrow> map_of (attrs m) k = Some v \<Longrightarrow>
     \<exists>f \<in> set (fields_of (cls m)). fname f = k"
proof -
  assume v: "valid_model m" and "map_of (attrs m) k = Some v"
  then have "k \<in> set (map fst (attrs m))"
    by (metis map_of_SomeD fst_conv image_eqI set_map)
  with v show ?thesis by (auto simp: valid_model_def)
qed

text \<open>
  The data a model is read back from: the serialised model, the document id, and
  possibly timestamps in \<open>created_at\<close> and \<open>updated_at\<close>.
\<close>

lemma readback_field_value:
  assumes v: "valid_model m" and f: "f \<in> set (fields_of (cls m))"
    and idv: "map_of data ''id'' = Some (VStr i)"
    and rest: "\<And>k. k \<noteq> ''id'' \<Longrightarrow> map_of data k = map_of (model_to_dict m False) k \<or>
        ((k = ''created_at'' \<or> k = ''updated_at'') \<and> (\<exists>t. map_of data k = Some (VTime t)))"
  shows "field_value now data f \<noteq> None"
proof -
  note d = fields_distinct [of "cls m"]
  have same: "g \<in> set (fields_of (cls m)) \<Longrightarrow> fname g = fname f \<Longrightarrow> g = f" for g
    using d f by (meson distinct_map inj_onD)
  from valid_model_field [OF v f] obtain w where
    w: "map_of (attrs m) (fname f) = Some w" "accepts f w" by blast
  show ?thesis
  proof (cases "fname f = ''id''")
    case True
    with same [OF base_field_names(1)] have "f = opt ''id'' TStr" by (simp add: opt_def)
    with idv show ?thesis by (simp add: field_value_def opt_def accepts_def)
  next
    case False
    from rest [OF False] show ?thesis
    proof
      assume eq: "map_of data (fname f) = map_of (model_to_dict m False) (fname f)"
      show ?thesis
      proof (cases "w = VNone")
        case True
        with w have "nullable f" by (simp add: accepts_def)
        then have "fdefault f \<noteq> Required" using nullable_not_required f by blast
        moreover have "map_of data (fname f) = None"
          using eq w True False by (simp add: map_of_model_to_dict valid_model_distinct [OF v])
        ultimately show ?thesis by (simp add: field_value_def split: dflt.splits)
      next
        case nn: False
        have "map_of data (fname f) = Some w"
          using eq w nn False by (simp add: map_of_model_to_dict valid_model_distinct [OF v])
        with w show ?thesis by (simp add: field_value_def)
      qed
    next
      assume "(fname f = ''created_at'' \<or> fname f = ''updated_at'') \<and>
          (\<exists>t. map_of data (fname f) = Some (VTime t))"
      then obtain t where t: "map_of data (fname f) = Some (VTime t)"
        and c: "fname f = ''created_at'' \<or> fname f = ''updated_at''" by blast
      from c have "ftyp f = TTime"
        using same [OF base_field_names(2)] same [OF base_field_names(3)]
        by (auto simp: opt_def)
      with t show ?thesis by (simp add: field_value_def accepts_def)
    qed
  qed
qed

lemma readback_construct:
  assumes "valid_model m"
    and "map_of data ''id'' = Some (VStr i)"
    and "\<And>k. k \<noteq> ''id'' \<Longrightarrow> map_of data k = map_of (model_to_dict m False) k \<or>
        ((k = ''created_at'' \<or> k = ''updated_at'') \<and> (\<exists>t. map_of data k = Some (VTime t)))"
  shows "\<exists>r. construct (cls m) now data = Some (Model (cls m) r)"
proof -
  have "\<forall>f \<in> set (fields_of (cls m)). field_value now data f \<noteq> None"
    using readback_field_value [OF assms(1) _ assms(2,3)] by blast
  from build_attrs_Some [OF this] show ?thesis by (simp add: construct_def)
qed


subsection \<open>What a Create does\<close>

lemma doc_set_True:
  assumes "doc_set ref p s = (True, s1)"
  shows "docs s1 = AList.update ref (resolve (Suc (server_clock s)) p) (docs s) \<and>
         server_clock s1 = Suc (server_clock s) \<and> wall_clock s1 = wall_clock s"
proof (cases "rpc s")
  case (Pair b s0)
  with assms have "b" "s1 = commit [(ref, p)] s0"
    by (cases b; simp add: doc_set_def)+
  with rpc_frame [OF Pair] show ?thesis
    by (simp add: commit_def Let_def)
qed

lemma col_add_Some:
  assumes "col_add col p s = (Some ref, s1)"
  shows "ref = (col, auto_id (auto_ids s)) \<and>
         docs s1 = AList.update ref (resolve (Suc (server_clock s)) p) (docs s) \<and>
         server_clock s1 = Suc (server_clock s) \<and> wall_clock s1 = wall_clock s"
proof (cases "rpc (s\<lparr>auto_ids := Suc (auto_ids s)\<rparr>)")
  case (Pair b s0)
  note fr = rpc_frame [OF Pair]
  from assms Pair have b: "b"
    by (cases b; simp add: col_add_def new_document_def)
  from assms Pair b have "map_of (docs s0) (col, auto_id (auto_ids s)) = None"
    by (cases "map_of (docs s0) (col, auto_id (auto_ids s))"; simp add: col_add_def new_document_def)
  with assms Pair b have "ref = (col, auto_id (auto_ids s))" "s1 = commit [(ref, p)] s0"
    by (auto simp: col_add_def new_document_def)
  with fr show ?thesis
    by (simp add: commit_def Let_def)
qed

lemma create_doc_Inr:
  assumes "create_doc col data doc_id ts s = (Inr ref, s1)"
  shows "fst ref = col \<and> (\<forall>i. given doc_id = Some i \<longrightarrow> snd ref = i) \<and>
         docs s1 = AList.update ref (resolve (Suc (server_clock s)) (create_payload data ts)) (docs s) \<and>
         server_clock s1 = Suc (server_clock s) \<and> wall_clock s1 = wall_clock s"
proof (cases "given doc_id")
  case (Some i)
  obtain b s0 where ds: "doc_set (col, i) (create_payload data ts) s = (b, s0)"
    by (cases "doc_set (col, i) (create_payload data ts) s")
  with assms Some have "b" "s0 = s1" "ref = (col, i)"
    by (cases b; simp add: create_doc_def)+
  with doc_set_True [of "(col, i)" "create_payload data ts" s s1] ds Some show ?thesis
    by simp
next
  case None
  obtain ro s0 where ca: "col_add col (create_payload data ts) s = (ro, s0)"
    by (cases "col_add col (create_payload data ts) s")
  with assms None have "ro = Some ref" "s0 = s1"
    by (cases ro; simp add: create_doc_def)+
  with col_add_Some [of col "create_payload data ts" s ref s1] ca None show ?thesis
    by simp
qed

lemma get_doc_Some:
  assumes "get_doc ref c s = (Inr (Some m), s')"
  shows "\<exists>d. map_of (docs s) ref = Some d \<and>
           construct c (wall_clock s) (AList.update ''id'' (VStr (snd ref)) d) = Some m \<and>
           docs s' = docs s \<and> server_clock s' = server_clock s \<and> wall_clock s' = wall_clock s"
proof -
  obtain so s0 where g: "doc_get ref s = (so, s0)" by (cases "doc_get ref s")
  with assms obtain snap where so: "so = Some snap" and "s0 = s'"
    and m: "doc_to_model snap c s' = Inr (Some m)"
    by (cases so; simp add: get_doc_def)
  obtain b s2 where r: "rpc s = (b, s2)" by (cases "rpc s")
  with g so have "b" by (cases b; simp add: doc_get_def)
  with g so r \<open>s0 = s'\<close> have snap: "snap = (snd ref, map_of (docs s') ref)" and "s2 = s'"
    by (auto simp: doc_get_def)
  note fr = rpc_frame [OF r [unfolded \<open>s2 = s'\<close>]]
  from m snap fr show ?thesis
    by (cases "map_of (docs s) ref"; simp add: doc_to_model_def Let_def split: option.splits)
qed

text \<open>On success, a Create has written one document, and returns what it reads back.\<close>

lemma create_in_Inr:
  assumes "create_in col m doc_id s = (Inr e, s')"
  shows "\<exists>ref created.
           fst ref = col_path col \<and> (\<forall>i. given doc_id = Some i \<longrightarrow> snd ref = i) \<and>
           docs s' = AList.update ref
             (resolve (Suc (server_clock s)) (create_payload (model_to_dict m False) True)) (docs s) \<and>
           construct (col_cls col) (wall_clock s)
             (AList.update ''id'' (VStr (snd ref))
               (resolve (Suc (server_clock s)) (create_payload (model_to_dict m False) True)))
             = Some created \<and>
           e = attach_metadata created (col_meta col) \<and>
           server_clock s' = Suc (server_clock s) \<and> wall_clock s' = wall_clock s"
proof -
  from assms obtain ref s1 created where
    c: "create_doc (col_path col) (model_to_dict m False) doc_id True s = (Inr ref, s1)"
    and g: "get_doc ref (col_cls col) s1 = (Inr (Some created), s')"
    and e: "e = attach_metadata created (col_meta col)"
    by (auto simp: create_in_unfold split: prod.splits sum.splits option.splits)
  note cd = create_doc_Inr [OF c]
  from get_doc_Some [OF g] obtain d where d: "map_of (docs s1) ref = Some d"
    and cn: "construct (col_cls col) (wall_clock s1) (AList.update ''id'' (VStr (snd ref)) d) = Some created"
    and fr: "docs s' = docs s1" "server_clock s' = server_clock s1" "wall_clock s' = wall_clock s1"
    by blast
  from d cd have "d = resolve (Suc (server_clock s)) (create_payload (model_to_dict m False) True)"
    by (simp add: update_conv')
  with cd cn fr e show ?thesis
    by (intro exI [of _ ref] exI [of _ created]) simp
qed

subsection \<open>Attributes of what is read back\<close>

lemma hasattr_setattr: "hasattr (setattr m k v) k' = (hasattr m k' \<or> k' = k)"
  by (auto simp: hasattr_def setattr_def dom_update)

lemma getattr_setattr: "getattr (setattr m k v) k' = (if k' = k then Some v else getattr m k')"
  by (simp add: getattr_def setattr_def update_conv')

lemma cls_attach_metadata: "cls (attach_metadata m meta) = cls m"
  by (induction meta arbitrary: m) (auto simp: setattr_def)

lemma getattr_attach_other:
  "k \<notin> fst ` set meta \<Longrightarrow> getattr (attach_metadata m meta) k = getattr m k"
  by (induction meta arbitrary: m) (auto simp: getattr_setattr)

lemma hasattr_attach: "hasattr m k \<Longrightarrow> hasattr (attach_metadata m meta) k"
  by (induction meta arbitrary: m) (auto simp: hasattr_setattr)

lemma getattr_attach_in:
  "distinct (map fst meta) \<Longrightarrow> (k, v) \<in> set meta \<Longrightarrow> v \<noteq> VNone \<Longrightarrow> hasattr m k \<Longrightarrow>
     getattr (attach_metadata m meta) k = Some v"
proof (induction meta arbitrary: m)
  case Nil
  then show ?case by simp
next
  case (Cons x meta)
  obtain k' v' where x: "x = (k', v')" by (cases x)
  show ?case
  proof (cases "(k, v) = (k', v')")
    case True
    with Cons.prems x have "k \<notin> fst ` set meta" by auto
    with True Cons.prems x show ?thesis
      by (simp add: getattr_attach_other getattr_setattr)
  next
    case False
    with Cons.prems x have "(k, v) \<in> set meta" "distinct (map fst meta)" by auto
    from Cons.IH [OF this(2) this(1) Cons.prems(3)] Cons.prems(4) x show ?thesis
      by (simp add: hasattr_setattr)
  qed
qed

lemma construct_getattr:
  assumes "construct c now data = Some created" "f \<in> set (fields_of c)"
    "map_of data (fname f) = Some v"
  shows "getattr created (fname f) = Some v"
proof -
  from assms(1) obtain r where r: "build_attrs now data (fields_of c) = Some r"
    and cr: "created = Model c r"
    by (auto simp: construct_def)
  from build_attrs_accepts [OF r assms(2,3)] have "field_value now data f = Some v"
    using assms(3) by (simp add: field_value_def)
  with build_attrs_lookup [OF r fields_distinct assms(2)] cr show ?thesis
    by (simp add: getattr_def)
qed

lemma construct_hasattr:
  assumes "construct c now data = Some created"
  shows "hasattr created k = (k \<in> fname ` set (fields_of c))"
proof -
  from assms obtain r where "build_attrs now data (fields_of c) = Some r" "created = Model c r"
    by (auto simp: construct_def)
  with build_attrs_keys [OF this(1)] show ?thesis
    by (simp add: hasattr_def flip: set_map)
qed

lemma construct_cls: "construct c now data = Some created \<Longrightarrow> cls created = c"
  by (auto simp: construct_def)

subsection \<open>Single-document Create\<close>

lemma set_model_to_dict:
  "set (model_to_dict m False) = {kv \<in> set (attrs m). snd kv \<noteq> VNone \<and> fst kv \<noteq> ''id''}"
  by (auto simp: model_to_dict_def Let_def dict_exclude_none_def AList.delete_eq image_iff)

lemma sum_result_cases:
  assumes "\<not> isl (fst r)"
  obtains e s' where "r = (Inr e, s')"
  using assms by (cases r; cases "fst r") auto

lemma meta_keys:
  "fst ` set (col_meta col) \<subseteq> {''org_id'', ''project_id'', ''asset_id'', ''generation_id''}"
  by (cases col) auto

lemma meta_distinct: "distinct (map fst (col_meta col))"
  by (cases col) simp_all

lemma meta_values: "(k, v) \<in> set (col_meta col) \<Longrightarrow> v \<noteq> VNone"
  by (cases col) auto

lemma hasattr_attach_iff: "hasattr (attach_metadata m meta) k = hasattr m k"
proof (induction m meta rule: attach_metadata.induct)
  case (1 m)
  then show ?case by simp
next
  case (2 m key v kwargs)
  then show ?case
    by (cases "v \<noteq> VNone \<and> hasattr m key") (auto simp: hasattr_setattr)
qed

lemma getattr_valid:
  "valid_model m \<Longrightarrow> map_of (model_to_dict m False) k =
     (if k = ''id'' then None
      else case getattr m k of Some v \<Rightarrow> if v = VNone then None else Some v | None \<Rightarrow> None)"
  by (simp add: map_of_model_to_dict valid_model_distinct getattr_def)

lemma created_doc:
  assumes v: "valid_model m" and c: "create_in col m doc_id s = (Inr e, s')"
  obtains ref d created where
    "fst ref = col_path col" "\<forall>i. given doc_id = Some i \<longrightarrow> snd ref = i"
    "docs s' = AList.update ref d (docs s)" "wall_clock s' = wall_clock s"
    "construct (col_cls col) (wall_clock s) (AList.update ''id'' (VStr (snd ref)) d) = Some created"
    "e = attach_metadata created (col_meta col)"
    "map_of d ''updated_at'' = Some (VTime (Suc (server_clock s)))"
    "map_of d ''created_at'' =
       (if getattr m ''created_at'' = Some VNone \<or> getattr m ''created_at'' = None
        then Some (VTime (Suc (server_clock s))) else getattr m ''created_at'')"
    "\<And>k. k \<noteq> ''created_at'' \<Longrightarrow> k \<noteq> ''updated_at'' \<Longrightarrow> k \<noteq> ''id'' \<Longrightarrow>
       map_of d k = (case getattr m k of
                       Some v \<Rightarrow> if v = VNone then None else Some v
                     | None \<Rightarrow> None)"
proof -
  let ?d = "resolve (Suc (server_clock s)) (create_payload (model_to_dict m False) True)"
  from create_in_Inr [OF c] obtain ref created where r:
    "fst ref = col_path col" "\<forall>i. given doc_id = Some i \<longrightarrow> snd ref = i"
    "docs s' = AList.update ref ?d (docs s)" "wall_clock s' = wall_clock s"
    "construct (col_cls col) (wall_clock s) (AList.update ''id'' (VStr (snd ref)) ?d) = Some created"
    "e = attach_metadata created (col_meta col)"
    by blast
  have u: "map_of ?d ''updated_at'' = Some (VTime (Suc (server_clock s)))"
    by (simp add: map_of_stored)
  have ca: "map_of ?d ''created_at'' =
       (if getattr m ''created_at'' = Some VNone \<or> getattr m ''created_at'' = None
        then Some (VTime (Suc (server_clock s))) else getattr m ''created_at'')"
    by (auto simp: map_of_stored getattr_valid [OF v] split: option.splits)
  have rest: "map_of ?d k = (case getattr m k of
                       Some v \<Rightarrow> if v = VNone then None else Some v
                     | None \<Rightarrow> None)"
    if "k \<noteq> ''created_at''" "k \<noteq> ''updated_at''" "k \<noteq> ''id''" for k
    using that by (simp add: map_of_stored getattr_valid [OF v])
  from that [OF r u ca rest] show ?thesis .
qed

lemma created_getattr:
  assumes "construct c now (AList.update ''id'' (VStr i) d) = Some created"
    "e = attach_metadata created meta"
  shows "getattr e ''id'' = Some (VStr i) \<or> ''id'' \<in> fst ` set meta"
    and "k \<notin> fst ` set meta \<Longrightarrow> k \<noteq> ''id'' \<Longrightarrow> f \<in> set (fields_of c) \<Longrightarrow> fname f = k \<Longrightarrow>
          map_of d k = Some v \<Longrightarrow> getattr e k = Some v"
proof -
  have "map_of (AList.update ''id'' (VStr i) d) (fname (opt ''id'' TStr)) = Some (VStr i)"
    by (simp add: update_conv' opt_def)
  from construct_getattr [OF assms(1) base_field_names(1) [of c] this]
  have "getattr created ''id'' = Some (VStr i)" by (simp add: opt_def)
  then show "getattr e ''id'' = Some (VStr i) \<or> ''id'' \<in> fst ` set meta"
    using assms(2) getattr_attach_other [of "''id''" meta created] by auto
next
  assume a: "k \<notin> fst ` set meta" "k \<noteq> ''id''" "f \<in> set (fields_of c)" "fname f = k" "map_of d k = Some v"
  then have "map_of (AList.update ''id'' (VStr i) d) (fname f) = Some v"
    by (simp add: update_conv')
  from construct_getattr [OF assms(1) a(3) this] a assms(2) show "getattr e k = Some v"
    by (simp add: getattr_attach_other)
qed

subsection \<open>Timestamps of a Create\<close>

lemma stamp_not_meta:
  "''updated_at'' \<notin> fst ` set (col_meta col)" "''created_at'' \<notin> fst ` set (col_meta col)"
  "''id'' \<notin> fst ` set (col_meta col)"
  using meta_keys [of col] by auto

lemma valid_created_at:
  assumes "valid_model m"
  shows "\<exists>v. getattr m ''created_at'' = Some v"
  using valid_model_field [OF assms base_field_names(3)] by (auto simp: getattr_def)

text \<open>The entity a successful Create returns: its timestamps.\<close>

lemma created_stamps:
  assumes v: "valid_model m" and c: "create_in col m doc_id s = (Inr e, s')"
  shows "getattr e ''updated_at'' = Some (VTime (Suc (server_clock s))) \<and>
         getattr e ''created_at'' =
           (if getattr m ''created_at'' = Some VNone then Some (VTime (Suc (server_clock s)))
            else getattr m ''created_at'')"
proof (rule created_doc [OF v c], goal_cases)
  case (1 ref d created)
  from created_getattr(2) [OF 1(5,6) stamp_not_meta(1) _ base_field_names(2) _ 1(7)]
  have u: "getattr e ''updated_at'' = Some (VTime (Suc (server_clock s)))"
    by (simp add: opt_def)
  from valid_created_at [OF v] obtain w where w: "getattr m ''created_at'' = Some w" by blast
  let ?c = "if w = VNone then VTime (Suc (server_clock s)) else w"
  from 1(8) w have "map_of d ''created_at'' = Some ?c" by simp
  from created_getattr(2) [OF 1(5,6) stamp_not_meta(2) _ base_field_names(3) _ this] w
  have "getattr e ''created_at'' =
           (if getattr m ''created_at'' = Some VNone then Some (VTime (Suc (server_clock s)))
            else getattr m ''created_at'')"
    by simp
  with u show ?case by simp
qed

lemma valid_acme: "valid_model acme" "valid_model acme_dated"
  by code_simp+

text \<open>
  Claim C4, as amended. A Create that succeeds has \<open>updated_at\<close> assigned by the store
  (the store's clock at the write), in the stored document and in the entity returned.
  \<open>created_at\<close> is assigned by the store only when the model carries none, and is then
  equal to \<open>updated_at\<close>; a \<open>created_at\<close> the model carries is persisted and returned
  as the client supplied it.
\<close>

theorem create_timestamps:
  assumes "valid_model m" "create_in col m doc_id s = (Inr e, s')"
  shows "getattr e ''updated_at'' = Some (VTime (Suc (server_clock s))) \<and>
         getattr e ''created_at'' =
           (if getattr m ''created_at'' = Some VNone then Some (VTime (Suc (server_clock s)))
            else getattr m ''created_at'') \<and>
         (\<exists>ref d. fst ref = col_path col \<and> map_of (docs s') ref = Some d \<and>
            map_of d ''updated_at'' = Some (VTime (Suc (server_clock s))) \<and>
            map_of d ''created_at'' =
              (if getattr m ''created_at'' = Some VNone then Some (VTime (Suc (server_clock s)))
               else getattr m ''created_at''))"
proof (rule created_doc [OF assms], goal_cases)
  case (1 ref d created)
  from valid_created_at [OF assms(1)] 1(8) have "map_of d ''created_at'' =
       (if getattr m ''created_at'' = Some VNone then Some (VTime (Suc (server_clock s)))
        else getattr m ''created_at'')"
    by auto
  with 1(1,3,7) have "\<exists>ref d. fst ref = col_path col \<and> map_of (docs s') ref = Some d \<and>
            map_of d ''updated_at'' = Some (VTime (Suc (server_clock s))) \<and>
            map_of d ''created_at'' =
              (if getattr m ''created_at'' = Some VNone then Some (VTime (Suc (server_clock s)))
               else getattr m ''created_at'')"
    by (intro exI [of _ ref] exI [of _ d]) (simp add: update_conv')
  with created_stamps [OF assms] show ?case by simp
qed

theorem create_timestamps_witness:
  "\<exists>e s'. valid_model acme \<and> create_in Organizations acme (Some ''org_1'') env0 = (Inr e, s') \<and>
     getattr e ''updated_at'' = Some (VTime 1) \<and> getattr e ''created_at'' = Some (VTime 1)"
proof -
  have "\<not> isl (fst (create_in Organizations acme (Some ''org_1'') env0))"
    by code_simp
  then obtain e s' where h: "create_in Organizations acme (Some ''org_1'') env0 = (Inr e, s')"
    by (rule sum_result_cases)
  have c: "getattr acme ''created_at'' = Some VNone" "server_clock env0 = 0"
    by code_simp+
  from create_timestamps [OF valid_acme(1) h] c h valid_acme(1) show ?thesis
    by simp
qed

text \<open>
  The claim as stated fails: an \<open>Organization\<close> model carrying the client-side
  \<open>created_at = 100\<close>, created while the server clock stands at 0, comes back with
  \<open>created_at = 100\<close> and \<open>updated_at = 1\<close>.
\<close>

theorem created_at_client_supplied:
  "fst (create_organization acme_dated (Some ''org_1'') env0) =
     Inr (Model Organization
       [(''id'', VStr ''org_1''), (''org_id'', VNone), (''project_id'', VNone),
        (''created_at'', VTime 100), (''updated_at'', VTime 1), (''name'', VStr ''Acme''),
        (''owner_user_id'', VNone), (''plan_tier'', VNone), (''members_summary'', VNone)])"
  by code_simp

subsection \<open>What a Create persists\<close>

lemma valid_demo_project: "valid_model demo_project"
  by code_simp

text \<open>
  The claim as stated fails: the POST handler for projects applies the path's \<open>org_id\<close> to
  the model before the Create, and the stored document holds it.
\<close>

theorem rest_create_persists_org_id:
  "map_of (docs (snd (create_project_endpoint ''org_1''
       [(''name'', VStr ''Demo''), (''id'', VStr ''proj_1'')] env0)))
     (projects_col ''org_1'', ''proj_1'') =
   Some [(''org_id'', VStr ''org_1''), (''name'', VStr ''Demo''), (''settings'', VDict []),
         (''asset_count'', VInt 0), (''theme_count'', VInt 0), (''created_at'', VTime 1),
         (''updated_at'', VTime 1)]"
  by code_simp

subsection \<open>Get after Create\<close>

lemmas get_defs = get_organization_def get_project_def get_asset_def get_generation_def
  get_variant_def get_user_def

lemma get_in_unfold:
  assumes "col_cls col \<noteq> Theme" "col_cls col \<noteq> ConceptImage"
  shows "get_in col i s =
     (case get_doc (col_path col, i) (col_cls col) s of
        (Inl e, s') \<Rightarrow> (Inl e, s')
      | (Inr None, s') \<Rightarrow> (Inr None, s')
      | (Inr (Some x), s') \<Rightarrow> (Inr (Some (attach_metadata x (col_meta col))), s'))"
  using assms
  by (cases col) (auto simp: get_defs split: prod.splits sum.splits option.splits)

lemma rpc_ok: "\<not> next_fails s \<Longrightarrow> fst (rpc s)"
  by (simp add: rpc_def next_fails_def split: list.splits)

lemma get_doc_found:
  assumes "\<not> next_fails s" "map_of (docs s) ref = Some d"
    "construct c (wall_clock s) (AList.update ''id'' (VStr (snd ref)) d) = Some x"
  shows "fst (get_doc ref c s) = Inr (Some x)"
proof (cases "rpc s")
  case (Pair b s0)
  with rpc_ok [OF assms(1)] have b: "b" by simp
  from rpc_frame [OF Pair] assms(2,3) Pair b show ?thesis
    by (simp add: get_doc_def doc_get_def doc_to_model_def)
qed

lemma get_in_found:
  assumes "col_cls col \<noteq> Theme" "col_cls col \<noteq> ConceptImage" "\<not> next_fails s"
    "map_of (docs s) (col_path col, i) = Some d"
    "construct (col_cls col) (wall_clock s) (AList.update ''id'' (VStr i) d) = Some x"
  shows "fst (get_in col i s) = Inr (Some (attach_metadata x (col_meta col)))"
proof -
  from get_doc_found [OF assms(3,4)] assms(5)
  have "fst (get_doc (col_path col, i) (col_cls col) s) = Inr (Some x)" by simp
  then show ?thesis
    by (cases "get_doc (col_path col, i) (col_cls col) s") (simp add: get_in_unfold [OF assms(1,2)])
qed

text \<open>
  Claim C6, as amended. Let a Create of a valid entity value \<open>m\<close> succeed and return \<open>e\<close>.
  Then \<open>e\<close> carries the assigned id (the given one, if one is given); a Get on that id,
  for the kinds that have a Get and when the call to the store does not fail, returns
  \<open>e\<close>; \<open>e\<close> equals \<open>m\<close> on every field of \<open>m\<close> that is not \<open>None\<close>, other than
  \<open>id\<close>, \<open>updated_at\<close> and the ancestor ids taken from the path (so also on a
  \<open>created_at\<close> that \<open>m\<close> carries); \<open>updated_at\<close> is the store's timestamp; and when
  \<open>m\<close> carries no \<open>created_at\<close>, \<open>created_at\<close> equals \<open>updated_at\<close>.
\<close>

theorem create_then_get:
  assumes v: "valid_model m" and cl: "cls m = col_cls col"
    and c: "create_in col m doc_id s = (Inr e, s1)"
  shows "\<exists>i. getattr e ''id'' = Some (VStr i) \<and> (\<forall>j. given doc_id = Some j \<longrightarrow> i = j) \<and>
           (col_cls col \<noteq> Theme \<and> col_cls col \<noteq> ConceptImage \<and> \<not> next_fails s1 \<longrightarrow>
              fst (get_in col i s1) = Inr (Some e)) \<and>
           (\<forall>k w. getattr m k = Some w \<and> w \<noteq> VNone \<and> k \<noteq> ''id'' \<and> k \<noteq> ''updated_at'' \<and>
                  k \<notin> fst ` set (col_meta col) \<longrightarrow> getattr e k = Some w) \<and>
           getattr e ''updated_at'' = Some (VTime (Suc (server_clock s))) \<and>
           (getattr m ''created_at'' = Some VNone \<longrightarrow>
              getattr e ''created_at'' = getattr e ''updated_at'')"
proof (rule created_doc [OF v c], goal_cases)
  case (1 ref d created)
  have ref: "ref = (col_path col, snd ref)" using 1(1) by (cases ref) simp
  from created_getattr(1) [OF 1(5,6)] stamp_not_meta(3)
  have idv: "getattr e ''id'' = Some (VStr (snd ref))" by blast
  have got: "fst (get_in col (snd ref) s1) = Inr (Some e)"
    if "col_cls col \<noteq> Theme" "col_cls col \<noteq> ConceptImage" "\<not> next_fails s1"
  proof -
    have "map_of (docs s1) (col_path col, snd ref) = Some d"
      using 1(3) ref by (simp add: update_conv')
    from get_in_found [OF that this] 1(4,5,6) show ?thesis by simp
  qed
  have fields: "getattr e k = Some w"
    if "getattr m k = Some w" "w \<noteq> VNone" "k \<noteq> ''id''" "k \<noteq> ''updated_at''"
      "k \<notin> fst ` set (col_meta col)" for k w
  proof -
    from valid_model_key [OF v that(1) [unfolded getattr_def]] cl
    obtain f where f: "f \<in> set (fields_of (col_cls col))" "fname f = k" by auto
    have "map_of d k = Some w"
    proof (cases "k = ''created_at''")
      case True
      with 1(8) that(1,2) show ?thesis by simp
    next
      case False
      with 1(9) [OF False that(4,3)] that(1,2) show ?thesis by simp
    qed
    from created_getattr(2) [OF 1(5,6) that(5,3) f this] show ?thesis .
  qed
  from created_stamps [OF v c] have st:
    "getattr e ''updated_at'' = Some (VTime (Suc (server_clock s)))"
    "getattr m ''created_at'' = Some VNone \<longrightarrow> getattr e ''created_at'' = getattr e ''updated_at''"
    by simp_all
  show ?case
    using idv 1(2) got fields st
    by (intro exI [of _ "snd ref"] conjI) blast+
qed


theorem create_then_get_witness:
  "\<exists>e s1. valid_model acme \<and> cls acme = col_cls Organizations \<and>
     create_in Organizations acme (Some ''org_1'') env0 = (Inr e, s1) \<and>
     getattr e ''id'' = Some (VStr ''org_1'') \<and>
     fst (get_in Organizations ''org_1'' s1) = Inr (Some e) \<and>
     getattr e ''name'' = Some (VStr ''Acme'') \<and>
     getattr e ''created_at'' = getattr e ''updated_at''"
proof -
  let ?r = "create_in Organizations acme (Some ''org_1'') env0"
  have "\<not> isl (fst ?r)"
    by code_simp
  then obtain e s1 where h: "?r = (Inr e, s1)"
    by (rule sum_result_cases)
  have cl: "cls acme = col_cls Organizations"
    by (simp add: acme_def)
  have "\<not> next_fails (snd ?r)"
    by code_simp
  with h have nf: "\<not> next_fails s1" by simp
  have g: "getattr acme ''name'' = Some (VStr ''Acme'')" "getattr acme ''created_at'' = Some VNone"
    by code_simp+
  from create_then_get [OF valid_acme(1) cl h] obtain i where r:
    "getattr e ''id'' = Some (VStr i) \<and> (\<forall>j. given (Some ''org_1'') = Some j \<longrightarrow> i = j) \<and>
       (col_cls Organizations \<noteq> Theme \<and> col_cls Organizations \<noteq> ConceptImage \<and> \<not> next_fails s1 \<longrightarrow>
          fst (get_in Organizations i s1) = Inr (Some e)) \<and>
       (\<forall>k w. getattr acme k = Some w \<and> w \<noteq> VNone \<and> k \<noteq> ''id'' \<and> k \<noteq> ''updated_at'' \<and>
              k \<notin> fst ` set (col_meta Organizations) \<longrightarrow> getattr e k = Some w) \<and>
       getattr e ''updated_at'' = Some (VTime (Suc (server_clock env0))) \<and>
       (getattr acme ''created_at'' = Some VNone \<longrightarrow>
          getattr e ''created_at'' = getattr e ''updated_at'')"
    by (elim exE) (rule that)
  then have i: "i = ''org_1''" by simp
  from r have name: "getattr acme ''name'' = Some w \<and> w \<noteq> VNone \<and> ''name'' \<noteq> ''id'' \<and>
      ''name'' \<noteq> ''updated_at'' \<and> ''name'' \<notin> fst ` set (col_meta Organizations) \<longrightarrow>
      getattr e ''name'' = Some w" for w
    by blast
  from name [of "VStr ''Acme''"] g have n: "getattr e ''name'' = Some (VStr ''Acme'')" by simp
  from r i nf g have "getattr e ''id'' = Some (VStr ''org_1'')"
    "fst (get_in Organizations ''org_1'' s1) = Inr (Some e)"
    "getattr e ''created_at'' = getattr e ''updated_at''"
    by simp_all
  with n h cl valid_acme(1) show ?thesis
    by (intro exI [of _ e] exI [of _ s1]) simp
qed

text \<open>
  The claim as stated fails on its timestamps: created with the client-side
  \<open>created_at = 100\<close> while the server clock stands at 0, the organization is read back
  with \<open>created_at = 100\<close> and \<open>updated_at = 1\<close>.
\<close>

theorem roundtrip_created_at_after_updated_at:
  "fst (get_organization ''org_1'' (snd (create_organization acme_dated (Some ''org_1'') env0))) =
     Inr (Some (Model Organization
       [(''id'', VStr ''org_1''), (''org_id'', VNone), (''project_id'', VNone),
        (''created_at'', VTime 100), (''updated_at'', VTime 1), (''name'', VStr ''Acme''),
        (''owner_user_id'', VNone), (''plan_tier'', VNone), (''members_summary'', VNone)]))"
  by code_simp

subsection \<open>The compound create\<close>

lemma rpc_fails: "next_fails s \<Longrightarrow> \<not> fst (rpc s)"
  by (simp add: rpc_def next_fails_def split: list.splits)

lemma next_fails_cong: "faults s' = faults s \<Longrightarrow> next_fails s' = next_fails s"
  by (simp add: next_fails_def)

lemma transaction_fn_result:
  "\<exists>a_id g_id s2.
     transaction_fn org_id project_id asset generation asset_id generation_id s =
       (([((assets_col org_id project_id, a_id), plain (model_to_dict asset False)),
          ((generations_col org_id project_id a_id, g_id), plain (model_to_dict generation False))],
         (a_id, g_id)), s2) \<and>
     docs s2 = docs s \<and> faults s2 = faults s \<and> server_clock s2 = server_clock s \<and>
     wall_clock s2 = wall_clock s \<and>
     (\<forall>i. given asset_id = Some i \<longrightarrow> a_id = i) \<and>
     (\<forall>i. given generation_id = Some i \<longrightarrow> g_id = i)"
  by (cases "given asset_id"; cases "given generation_id")
     (simp_all add: transaction_fn_def new_document_def collection_def generations_col_def Let_def)

lemma commit_two:
  "docs (commit [(r1, plain d1), (r2, plain d2)] s) =
     AList.update r2 d2 (AList.update r1 d1 (docs s))"
  by (simp add: commit_def Let_def resolve_plain)

lemma run_transaction_abort:
  assumes "fn s = ((ws, r), s2)" "docs s2 = docs s" "faults s2 = faults s" "next_fails s"
  shows "fst (run_transaction fn s) = None \<and> docs (snd (run_transaction fn s)) = docs s"
proof (cases "rpc s2")
  case (Pair b s0)
  from rpc_fails [of s2] next_fails_cong [OF assms(3)] assms(4) Pair have "\<not> b" by simp
  with Pair assms(1,2) rpc_frame [OF Pair] show ?thesis
    by (simp add: run_transaction_def)
qed

lemma run_transaction_commit:
  assumes "fn s = ((ws, r), s2)" "docs s2 = docs s" "faults s2 = faults s" "\<not> next_fails s"
  shows "fst (run_transaction fn s) = Some r \<and>
         docs (snd (run_transaction fn s)) = docs (commit ws s2)"
proof (cases "rpc s2")
  case (Pair b s0)
  from rpc_ok [of s2] next_fails_cong [OF assms(3)] assms(4) Pair have "b" by simp
  with Pair assms(1,2) rpc_frame [OF Pair] show ?thesis
    by (simp add: run_transaction_def commit_def Let_def)
qed

text \<open>After the transaction, the compound create only reads.\<close>

lemma compound_after_commit:
  assumes "run_transaction (transaction_fn org_id project_id asset generation asset_id generation_id) s
             = (Some ids, s1)"
  shows "docs (snd (create_asset_with_first_generation org_id project_id asset generation
                      asset_id generation_id s)) = docs s1"
  using assms
  by (auto simp: create_asset_with_first_generation_def
      split: prod.splits sum.splits option.splits dest!: get_frames(3) get_frames(4))

lemma compound_after_abort:
  assumes "run_transaction (transaction_fn org_id project_id asset generation asset_id generation_id) s
             = (None, s1)"
  shows "create_asset_with_first_generation org_id project_id asset generation
           asset_id generation_id s = (Inl FirestoreError, s1)"
  using assms by (simp add: create_asset_with_first_generation_def)


lemma compound_outcome:
  "\<exists>a_id g_id.
     (\<forall>i. given asset_id = Some i \<longrightarrow> a_id = i) \<and>
     (\<forall>i. given generation_id = Some i \<longrightarrow> g_id = i) \<and>
     (next_fails s \<longrightarrow>
        fst (create_asset_with_first_generation org_id project_id asset generation
               asset_id generation_id s) = Inl FirestoreError \<and>
        docs (snd (create_asset_with_first_generation org_id project_id asset generation
               asset_id generation_id s)) = docs s) \<and>
     (\<not> next_fails s \<longrightarrow>
        docs (snd (create_asset_with_first_generation org_id project_id asset generation
               asset_id generation_id s)) =
          AList.update (generations_col org_id project_id a_id, g_id) (model_to_dict generation False)
            (AList.update (assets_col org_id project_id, a_id) (model_to_dict asset False) (docs s)))"
proof -
  let ?fn = "transaction_fn org_id project_id asset generation asset_id generation_id"
  let ?R = "create_asset_with_first_generation org_id project_id asset generation
               asset_id generation_id s"
  from transaction_fn_result [of org_id project_id asset generation asset_id generation_id s]
  obtain a_id g_id s2 where
    fn: "?fn s = (([((assets_col org_id project_id, a_id), plain (model_to_dict asset False)),
          ((generations_col org_id project_id a_id, g_id), plain (model_to_dict generation False))],
         (a_id, g_id)), s2)"
    and fr: "docs s2 = docs s" "faults s2 = faults s"
    and ids: "\<forall>i. given asset_id = Some i \<longrightarrow> a_id = i"
      "\<forall>i. given generation_id = Some i \<longrightarrow> g_id = i"
    by (elim exE conjE) (rule that)
  obtain ro s1 where rt: "run_transaction ?fn s = (ro, s1)"
    by (cases "run_transaction ?fn s")
  have abort: "fst ?R = Inl FirestoreError \<and> docs (snd ?R) = docs s" if "next_fails s"
  proof -
    from run_transaction_abort [where fn = ?fn and s = s, OF fn fr that] rt have "ro = None" "docs s1 = docs s"
      by simp_all
    with compound_after_abort [of org_id project_id asset generation asset_id generation_id s s1] rt
    show ?thesis by simp
  qed
  have commit: "docs (snd ?R) =
      AList.update (generations_col org_id project_id a_id, g_id) (model_to_dict generation False)
        (AList.update (assets_col org_id project_id, a_id) (model_to_dict asset False) (docs s))"
    if "\<not> next_fails s"
  proof -
    from run_transaction_commit [where fn = ?fn and s = s, OF fn fr that] rt
    have "ro = Some (a_id, g_id)" and d: "docs s1 = docs (commit
        [((assets_col org_id project_id, a_id), plain (model_to_dict asset False)),
         ((generations_col org_id project_id a_id, g_id), plain (model_to_dict generation False))] s2)"
      by simp_all
    with compound_after_commit [of org_id project_id asset generation asset_id generation_id s
        "(a_id, g_id)" s1] rt
    have "docs (snd ?R) = docs s1" by simp
    with d fr(1) show ?thesis by (simp add: commit_two)
  qed
  from ids abort commit show ?thesis
    by (intro exI [of _ a_id] exI [of _ g_id]) simp
qed

lemma readback_plain:
  assumes "valid_model m"
  shows "\<exists>x. construct (cls m) now (AList.update ''id'' (VStr i) (model_to_dict m False)) = Some x"
  using readback_construct [OF assms, of "AList.update ''id'' (VStr i) (model_to_dict m False)" i now]
  by (auto simp: update_conv')

lemma cols_differ: "assets_col org_id project_id \<noteq> generations_col org_id project_id a_id"
  by (simp add: generations_col_def collection_def)

lemma valid_hero: "valid_model hero_asset" "valid_model hero_generation"
  "cls hero_asset = Asset" "cls hero_generation = Generation"
  by code_simp+

text \<open>
  Claim C1. The compound create of a valid asset and a valid generation writes both
  documents in one transaction. When the transaction aborts (the call to the store
  fails), the caller gets a \<open>FirestoreError\<close> and the documents of the store are what
  they were: neither document has been created. When it commits, both documents are
  there: in every later state with these documents, a Get of the asset and a Get of the
  generation (whose call to the store does not fail) each return an entity.
\<close>

theorem compound_create_atomic:
  assumes "valid_model asset" "cls asset = Asset"
    "valid_model generation" "cls generation = Generation"
  shows "(next_fails s \<longrightarrow>
            fst (create_asset_with_first_generation org_id project_id asset generation
                   asset_id generation_id s) = Inl FirestoreError \<and>
            docs (snd (create_asset_with_first_generation org_id project_id asset generation
                   asset_id generation_id s)) = docs s) \<and>
         (\<not> next_fails s \<longrightarrow>
            (\<exists>a_id g_id.
               (\<forall>i. given asset_id = Some i \<longrightarrow> a_id = i) \<and>
               (\<forall>i. given generation_id = Some i \<longrightarrow> g_id = i) \<and>
               (\<forall>s'. docs s' = docs (snd (create_asset_with_first_generation org_id project_id
                                           asset generation asset_id generation_id s)) \<and>
                     \<not> next_fails s' \<longrightarrow>
                  (\<exists>a g. fst (get_asset org_id project_id a_id s') = Inr (Some a) \<and>
                         fst (get_generation org_id project_id a_id g_id s') = Inr (Some g)))))"
proof -
  let ?R = "create_asset_with_first_generation org_id project_id asset generation
               asset_id generation_id s"
  let ?ad = "model_to_dict asset False" and ?gd = "model_to_dict generation False"
  from compound_outcome [of asset_id generation_id s org_id project_id asset generation]
  obtain a_id g_id where ids: "\<forall>i. given asset_id = Some i \<longrightarrow> a_id = i"
      "\<forall>i. given generation_id = Some i \<longrightarrow> g_id = i"
    and abort: "next_fails s \<longrightarrow> fst ?R = Inl FirestoreError \<and> docs (snd ?R) = docs s"
    and commit: "\<not> next_fails s \<longrightarrow> docs (snd ?R) =
        AList.update (generations_col org_id project_id a_id, g_id) ?gd
          (AList.update (assets_col org_id project_id, a_id) ?ad (docs s))"
    by (elim exE conjE) (rule that)
  have both: "\<exists>a g. fst (get_asset org_id project_id a_id s') = Inr (Some a) \<and>
                  fst (get_generation org_id project_id a_id g_id s') = Inr (Some g)"
    if nf: "\<not> next_fails s" and s': "docs s' = docs (snd ?R)" "\<not> next_fails s'" for s'
  proof -
    from commit nf s'(1) have d: "docs s' =
        AList.update (generations_col org_id project_id a_id, g_id) ?gd
          (AList.update (assets_col org_id project_id, a_id) ?ad (docs s))"
      by simp
    have a: "map_of (docs s') (col_path (Assets org_id project_id), a_id) = Some ?ad"
      by (simp add: d update_conv' cols_differ)
    have g: "map_of (docs s') (col_path (Generations org_id project_id a_id), g_id) = Some ?gd"
      by (simp add: d update_conv')
    from readback_plain [OF assms(1), of "wall_clock s'" a_id] assms(2) obtain x where
      x: "construct (col_cls (Assets org_id project_id)) (wall_clock s')
            (AList.update ''id'' (VStr a_id) ?ad) = Some x"
      by auto
    from readback_plain [OF assms(3), of "wall_clock s'" g_id] assms(4) obtain y where
      y: "construct (col_cls (Generations org_id project_id a_id)) (wall_clock s')
            (AList.update ''id'' (VStr g_id) ?gd) = Some y"
      by auto
    from get_in_found [OF _ _ s'(2) a x] get_in_found [OF _ _ s'(2) g y]
    show ?thesis by simp
  qed
  from ids abort both show ?thesis
    by (intro conjI impI exI [of _ a_id] exI [of _ g_id] allI) simp_all
qed


theorem compound_create_atomic_witness:
  "valid_model hero_asset \<and> cls hero_asset = Asset \<and>
   valid_model hero_generation \<and> cls hero_generation = Generation \<and>
   next_fails env_fault \<and>
   fst (create_asset_with_first_generation ''org_1'' ''proj_1'' hero_asset hero_generation
          (Some ''asset_1'') (Some ''gen_1'') env_fault) = Inl FirestoreError \<and>
   docs (snd (create_asset_with_first_generation ''org_1'' ''proj_1'' hero_asset hero_generation
          (Some ''asset_1'') (Some ''gen_1'') env_fault)) = docs env_fault \<and>
   \<not> next_fails env0 \<and>
   (\<exists>a g. fst (get_asset ''org_1'' ''proj_1'' ''asset_1''
               (snd (create_asset_with_first_generation ''org_1'' ''proj_1'' hero_asset
                       hero_generation (Some ''asset_1'') (Some ''gen_1'') env0))) = Inr (Some a) \<and>
          fst (get_generation ''org_1'' ''proj_1'' ''asset_1'' ''gen_1''
               (snd (create_asset_with_first_generation ''org_1'' ''proj_1'' hero_asset
                       hero_generation (Some ''asset_1'') (Some ''gen_1'') env0))) = Inr (Some g))"
proof -
  let ?R = "\<lambda>s. create_asset_with_first_generation ''org_1'' ''proj_1'' hero_asset hero_generation
          (Some ''asset_1'') (Some ''gen_1'') s"
  note atomic = compound_create_atomic [OF valid_hero(1,3,2,4),
      where org_id = "''org_1''" and project_id = "''proj_1''"
        and asset_id = "Some ''asset_1''" and generation_id = "Some ''gen_1''"]
  have f: "next_fails env_fault" by code_simp
  have nf: "\<not> next_fails env0" by code_simp
  have nf': "\<not> next_fails (snd (?R env0))" by code_simp
  from atomic [of env_fault] f
  have abort: "fst (?R env_fault) = Inl FirestoreError" "docs (snd (?R env_fault)) = docs env_fault"
    by simp_all
  from atomic [THEN conjunct2, THEN mp, OF nf] obtain a_id g_id where
    r: "(\<forall>i. given (Some ''asset_1'') = Some i \<longrightarrow> a_id = i) \<and>
        (\<forall>i. given (Some ''gen_1'') = Some i \<longrightarrow> g_id = i) \<and>
        (\<forall>s'. docs s' = docs (snd (?R env0)) \<and> \<not> next_fails s' \<longrightarrow>
           (\<exists>a g. fst (get_asset ''org_1'' ''proj_1'' a_id s') = Inr (Some a) \<and>
                  fst (get_generation ''org_1'' ''proj_1'' a_id g_id s') = Inr (Some g)))"
    by (elim exE) (rule that)
  then have ids: "a_id = ''asset_1''" "g_id = ''gen_1''" by simp_all
  from r have "docs (snd (?R env0)) = docs (snd (?R env0)) \<and> \<not> next_fails (snd (?R env0)) \<longrightarrow>
      (\<exists>a g. fst (get_asset ''org_1'' ''proj_1'' a_id (snd (?R env0))) = Inr (Some a) \<and>
             fst (get_generation ''org_1'' ''proj_1'' a_id g_id (snd (?R env0))) = Inr (Some g))"
    by blast
  with nf' ids have "\<exists>a g. fst (get_asset ''org_1'' ''proj_1'' ''asset_1'' (snd (?R env0))) = Inr (Some a) \<and>
      fst (get_generation ''org_1'' ''proj_1'' ''asset_1'' ''gen_1'' (snd (?R env0))) = Inr (Some g)"
    by simp
  with valid_hero f nf abort show ?thesis by simp
qed

text \<open>
  Claim C9. When the transaction commits, the two documents written by the compound
  create are exactly the serialised models: no server timestamp is put in. For every
  field other than \<open>id\<close>, so for \<open>updated_at\<close> and \<open>created_at\<close>, the document holds
  the model's value when that is not \<open>None\<close> and has no entry otherwise.
\<close>

theorem compound_create_writes_serialized_fields:
  assumes "valid_model asset" "valid_model generation" "\<not> next_fails s"
  shows "\<exists>a_id g_id.
     (\<forall>i. given asset_id = Some i \<longrightarrow> a_id = i) \<and>
     (\<forall>i. given generation_id = Some i \<longrightarrow> g_id = i) \<and>
     map_of (docs (snd (create_asset_with_first_generation org_id project_id asset generation
                          asset_id generation_id s))) (assets_col org_id project_id, a_id)
       = Some (model_to_dict asset False) \<and>
     map_of (docs (snd (create_asset_with_first_generation org_id project_id asset generation
                          asset_id generation_id s))) (generations_col org_id project_id a_id, g_id)
       = Some (model_to_dict generation False) \<and>
     (\<forall>k. k \<noteq> ''id'' \<longrightarrow>
        map_of (model_to_dict asset False) k =
          (case getattr asset k of Some v \<Rightarrow> if v = VNone then None else Some v | None \<Rightarrow> None)) \<and>
     (\<forall>k. k \<noteq> ''id'' \<longrightarrow>
        map_of (model_to_dict generation False) k =
          (case getattr generation k of Some v \<Rightarrow> if v = VNone then None else Some v | None \<Rightarrow> None))"
proof -
  let ?R = "create_asset_with_first_generation org_id project_id asset generation
               asset_id generation_id s"
  let ?ad = "model_to_dict asset False" and ?gd = "model_to_dict generation False"
  from compound_outcome [of asset_id generation_id s org_id project_id asset generation]
  obtain a_id g_id where ids: "\<forall>i. given asset_id = Some i \<longrightarrow> a_id = i"
      "\<forall>i. given generation_id = Some i \<longrightarrow> g_id = i"
    and commit: "\<not> next_fails s \<longrightarrow> docs (snd ?R) =
        AList.update (generations_col org_id project_id a_id, g_id) ?gd
          (AList.update (assets_col org_id project_id, a_id) ?ad (docs s))"
    by (elim exE conjE) (rule that)
  from commit assms(3) have d: "docs (snd ?R) =
        AList.update (generations_col org_id project_id a_id, g_id) ?gd
          (AList.update (assets_col org_id project_id, a_id) ?ad (docs s))"
    by simp
  have a: "map_of (docs (snd ?R)) (assets_col org_id project_id, a_id) = Some ?ad"
    by (simp add: d update_conv' cols_differ)
  have g: "map_of (docs (snd ?R)) (generations_col org_id project_id a_id, g_id) = Some ?gd"
    by (simp add: d update_conv')
  from ids a g getattr_valid [OF assms(1)] getattr_valid [OF assms(2)] show ?thesis
    by (intro exI [of _ a_id] exI [of _ g_id]) simp
qed

theorem compound_create_writes_serialized_fields_witness:
  "valid_model hero_asset \<and> valid_model hero_generation \<and> \<not> next_fails env0 \<and>
   map_of (docs (snd (create_asset_with_first_generation ''org_1'' ''proj_1'' hero_asset
                        hero_generation (Some ''asset_1'') (Some ''gen_1'') env0)))
     (assets_col ''org_1'' ''proj_1'', ''asset_1'') = Some (model_to_dict hero_asset False) \<and>
   map_of (model_to_dict hero_asset False) ''updated_at'' = None \<and>
   map_of (model_to_dict hero_asset False) ''created_at'' = Some (VTime 100)"
proof -
  let ?R = "create_asset_with_first_generation ''org_1'' ''proj_1'' hero_asset hero_generation
          (Some ''asset_1'') (Some ''gen_1'') env0"
  have nf: "\<not> next_fails env0" by code_simp
  have ga: "getattr hero_asset ''updated_at'' = Some VNone"
    "getattr hero_asset ''created_at'' = Some (VTime 100)"
    by code_simp+
  from compound_create_writes_serialized_fields [OF valid_hero(1,2) nf,
      where org_id = "''org_1''" and project_id = "''proj_1''"
        and asset_id = "Some ''asset_1''" and generation_id = "Some ''gen_1''"]
  obtain a_id g_id where
    r: "(\<forall>i. given (Some ''asset_1'') = Some i \<longrightarrow> a_id = i) \<and>
        (\<forall>i. given (Some ''gen_1'') = Some i \<longrightarrow> g_id = i) \<and>
        map_of (docs (snd ?R)) (assets_col ''org_1'' ''proj_1'', a_id)
          = Some (model_to_dict hero_asset False) \<and>
        map_of (docs (snd ?R)) (generations_col ''org_1'' ''proj_1'' a_id, g_id)
          = Some (model_to_dict hero_generation False) \<and>
        (\<forall>k. k \<noteq> ''id'' \<longrightarrow>
           map_of (model_to_dict hero_asset False) k =
             (case getattr hero_asset k of
                Some v \<Rightarrow> if v = VNone then None else Some v | None \<Rightarrow> None)) \<and>
        (\<forall>k. k \<noteq> ''id'' \<longrightarrow>
           map_of (model_to_dict hero_generation False) k =
             (case getattr hero_generation k of
                Some v \<Rightarrow> if v = VNone then None else Some v | None \<Rightarrow> None))"
    by (elim exE) (rule that)
  then have ids: "a_id = ''asset_1''" by simp
  from r have k: "k \<noteq> ''id'' \<longrightarrow>
           map_of (model_to_dict hero_asset False) k =
             (case getattr hero_asset k of
                Some v \<Rightarrow> if v = VNone then None else Some v | None \<Rightarrow> None)" for k
    by simp
  from k [of "''updated_at''"] k [of "''created_at''"] ga
  have "map_of (model_to_dict hero_asset False) ''updated_at'' = None"
    "map_of (model_to_dict hero_asset False) ''created_at'' = Some (VTime 100)"
    by simp_all
  with r ids valid_hero nf show ?thesis by simp
qed

subsection \<open>The scenario\<close>

text \<open>
  Claim C2, as amended. Run on the empty store, the scenario ends with
  \<open>get_generation_with_variants\<close> returning the generation \<open>gen_1\<close> with status
  \<open>completed\<close> and exactly the two variants created, with their image URLs; each variant
  has \<open>org_id\<close> and \<open>project_id\<close> set to the ancestors of the path. A \<open>Variant\<close> has no
  field \<open>asset_id\<close> or \<open>generation_id\<close>, and none is attached.
\<close>

theorem scenario_result:
  "fst (scenario env0) =
     Inr (Some
       (GenerationWithVariants
         (Model Generation
           [(''id'', VStr ''gen_1''), (''org_id'', VStr ''org_1''),
            (''project_id'', VStr ''proj_1''), (''created_at'', VTime 0),
            (''updated_at'', VTime 5), (''prompt_text'', VStr ''a hero''),
            (''parameters'', VDict []), (''theme_id'', VNone),
            (''theme_snapshot'', VNone), (''concept_image_ids'', VList []),
            (''concept_image_weights'', VNone), (''variant_count'', VInt 0),
            (''triggered_by'', VNone), (''status'', VStr ''completed''),
            (''notes'', VNone), (''version_number'', VNone),
            (''variant_summary'', VNone)])
         (Some
           [Model Variant
             [(''id'', VStr ''var_1''), (''org_id'', VStr ''org_1''),
              (''project_id'', VStr ''proj_1''), (''created_at'', VTime 0),
              (''updated_at'', VTime 6),
              (''image_url'', VStr ''gs://bucket/one.png''),
              (''thumbnail_url'', VNone), (''metadata'', VDict []),
              (''is_selected'', VBool False), (''feedback'', VNone),
              (''generated_at'', VNone)],
            Model Variant
             [(''id'', VStr ''var_2''), (''org_id'', VStr ''org_1''),
              (''project_id'', VStr ''proj_1''), (''created_at'', VTime 0),
              (''updated_at'', VTime 7),
              (''image_url'', VStr ''gs://bucket/two.png''),
              (''thumbnail_url'', VNone), (''metadata'', VDict []),
              (''is_selected'', VBool False), (''feedback'', VNone),
              (''generated_at'', VNone)]])))"
  by code_simp

text \<open>
  The claim as stated fails: for both variants the scenario returns, \<open>org_id\<close> and
  \<open>project_id\<close> hold the ancestors, and \<open>asset_id\<close> and \<open>generation_id\<close> are not
  attributes of the variant.
\<close>

theorem scenario_variant_ancestors:
  "map ancestor_ids scenario_variants =
     [[Some (VStr ''org_1''), Some (VStr ''proj_1''), None, None],
      [Some (VStr ''org_1''), Some (VStr ''proj_1''), None, None]]"
  by code_simp

subsection \<open>Handlers without an accessor method\<close>

text \<open>
  Claim C3 fails on the code. The DELETE handler for projects calls
  \<open>accessor.delete_project\<close>, which \<open>FirestoreAccessor\<close> does not define: the handler
  never answers 204, and for an existing project it ends in an \<open>AttributeError\<close>.
\<close>

theorem delete_project_raises:
  "fst (delete_project_endpoint org_id project_id s) \<noteq> Inr 204 \<and>
   fst (delete_project_endpoint ''org_1'' ''proj_1'' env_project) =
     Inl (AttributeError ''delete_project'')"
proof
  show "fst (delete_project_endpoint org_id project_id s) \<noteq> Inr 204"
    by (cases "get_project_endpoint org_id project_id s"; cases "fst (get_project_endpoint org_id project_id s)")
       (simp_all add: delete_project_endpoint_def missing_method_def http_error_def)
  show "fst (delete_project_endpoint ''org_1'' ''proj_1'' env_project) =
     Inl (AttributeError ''delete_project'')"
    by code_simp
qed

subsection \<open>Models built by the REST layer\<close>

text \<open>The model a POST handler hands to the accessor carries no id and no timestamps.\<close>

lemma build_firestore_model_clears:
  assumes "build_firestore_model c data s = Inr m"
  shows "getattr m ''id'' = Some VNone \<and> getattr m ''created_at'' = Some VNone \<and>
         getattr m ''updated_at'' = Some VNone"
proof -
  from assms obtain m0 where m0: "construct c (wall_clock s) data = Some m0"
    by (cases "construct c (wall_clock s) data") (simp_all add: build_firestore_model_def)
  have names: "''id'' \<in> fname ` set (fields_of c)" "''created_at'' \<in> fname ` set (fields_of c)"
    "''updated_at'' \<in> fname ` set (fields_of c)"
    using base_field_names [of c] by (force simp: opt_def)+
  then have h: "hasattr m0 ''id''" "hasattr m0 ''created_at''" "hasattr m0 ''updated_at''"
    by (simp_all add: construct_hasattr [OF m0])
  with assms m0 have "m = setattr (setattr (setattr m0 ''id'' VNone) ''created_at'' VNone)
      ''updated_at'' VNone"
    by (simp add: build_firestore_model_def Let_def hasattr_setattr)
  then show ?thesis by (simp add: getattr_setattr)
qed

subsection \<open>The entity a Create returns\<close>

lemma attach_keys: "map fst (attrs (attach_metadata m meta)) = map fst (attrs m)"
proof (induction m meta rule: attach_metadata.induct)
  case (1 m)
  then show ?case by simp
next
  case (2 m key v kwargs)
  then show ?case
    by (cases "v \<noteq> VNone \<and> hasattr m key") (auto simp: setattr_def hasattr_def update_keys)
qed

lemma not_hasattr_getattr: "\<not> hasattr m k \<Longrightarrow> getattr m k = None"
  by (simp add: hasattr_def getattr_def map_of_eq_None_iff)

lemma construct_getattr_field:
  assumes "construct c now data = Some created" "f \<in> set (fields_of c)"
  shows "getattr created (fname f) = field_value now data f"
proof -
  from assms(1) obtain r where r: "build_attrs now data (fields_of c) = Some r"
    and cr: "created = Model c r"
    by (auto simp: construct_def)
  from build_attrs_lookup [OF r fields_distinct assms(2)] cr show ?thesis
    by (simp add: getattr_def)
qed

lemma field_value_update_other:
  "fname f \<noteq> k \<Longrightarrow> field_value now (AList.update k v d) f = field_value now d f"
  by (simp add: field_value_def update_conv')

text \<open>What a model read back from a document and given the path's ids looks like.\<close>

lemma hydrated:
  assumes cn: "construct c now (AList.update ''id'' (VStr i) d) = Some created"
    and e: "e = attach_metadata created meta"
    and dm: "distinct (map fst meta)" and nn: "\<forall>kv \<in> set meta. snd kv \<noteq> VNone"
    and idm: "''id'' \<notin> fst ` set meta"
  shows "cls e = c \<and> map fst (attrs e) = map fname (fields_of c) \<and>
         getattr e ''id'' = Some (VStr i) \<and>
         (\<forall>kv \<in> set meta. getattr e (fst kv) =
            (if fst kv \<in> fname ` set (fields_of c) then Some (snd kv) else None)) \<and>
         (\<forall>f \<in> set (fields_of c). fname f \<noteq> ''id'' \<and> fname f \<notin> fst ` set meta \<longrightarrow>
            getattr e (fname f) = field_value now d f)"
proof (intro conjI ballI impI)
  show "cls e = c" by (simp add: e cls_attach_metadata construct_cls [OF cn])
  from cn obtain r where r: "build_attrs now (AList.update ''id'' (VStr i) d) (fields_of c) = Some r"
    and cr: "created = Model c r"
    by (auto simp: construct_def)
  from build_attrs_keys [OF r] cr show "map fst (attrs e) = map fname (fields_of c)"
    by (simp add: e attach_keys)
  from created_getattr(1) [OF cn e] idm show "getattr e ''id'' = Some (VStr i)" by blast
next
  fix kv assume kv: "kv \<in> set meta"
  then have in_meta: "(fst kv, snd kv) \<in> set meta" by simp
  show "getattr e (fst kv) = (if fst kv \<in> fname ` set (fields_of c) then Some (snd kv) else None)"
  proof (cases "fst kv \<in> fname ` set (fields_of c)")
    case True
    then have "hasattr created (fst kv)" by (simp add: construct_hasattr [OF cn])
    from getattr_attach_in [OF dm in_meta _ this] nn kv True show ?thesis
      by (simp add: e)
  next
    case False
    then have "\<not> hasattr e (fst kv)"
      by (simp add: e hasattr_attach_iff construct_hasattr [OF cn])
    from not_hasattr_getattr [OF this] False show ?thesis by simp
  qed
next
  fix f assume f: "f \<in> set (fields_of c)"
    and o: "fname f \<noteq> ''id'' \<and> fname f \<notin> fst ` set meta"
  from o have "getattr e (fname f) = getattr created (fname f)"
    by (simp add: e getattr_attach_other)
  also have "\<dots> = field_value now (AList.update ''id'' (VStr i) d) f"
    by (rule construct_getattr_field [OF cn f])
  also have "\<dots> = field_value now d f"
    using o by (simp add: field_value_update_other)
  finally show "getattr e (fname f) = field_value now d f" .
qed

lemma meta_nonnull: "\<forall>kv \<in> set (col_meta col). snd kv \<noteq> VNone"
  by (cases col) simp_all


lemma bare_project_facts:
  "valid_model bare_project"
  "''org_id'' \<in> fname ` set (fields_of Project)"
  "Field ''name'' TStr False Required \<in> set (fields_of Project)"
  "opt ''updated_at'' TTime \<in> set (fields_of Project)"
  "map_of (model_to_dict bare_project False) ''created_at'' = Some (VTime 0)"
  "map_of (model_to_dict bare_project False) ''org_id'' = None"
  "field_value (wall_clock env0)
     (resolve (Suc (server_clock env0)) (create_payload (model_to_dict bare_project False) True))
     (Field ''name'' TStr False Required) = Some (VStr ''Demo'')"
  "field_value (wall_clock env0)
     (resolve (Suc (server_clock env0)) (create_payload (model_to_dict bare_project False) True))
     (opt ''updated_at'' TTime) = Some (VTime 1)"
  by code_simp+

text \<open>
  Claim C7, as amended. Whenever a single-document Create succeeds, one document has been
  written under the collection (under the given id, if one is given). Its payload holds
  the model's fields other than \<open>id\<close> whose value is not \<open>None\<close> (a field the caller
  left unset is written with its default), the server-timestamp sentinel in
  \<open>updated_at\<close>, and in \<open>created_at\<close> the model's value if the serialised data has one
  and the sentinel otherwise; the store resolves the sentinel to its clock. The entity
  returned is that document read back: an instance of the collection's class with the
  attributes the class declares; \<open>id\<close> is the document id; each ancestor id of the path
  is the value of the attribute of its name when the class declares it, and is no
  attribute of the entity otherwise; every other attribute holds the value of the stored
  document, or the default of the field where the document has none.
\<close>

theorem create_writes_stamps_reads_back:
  assumes "create_in col m doc_id s = (Inr e, s')"
  shows "\<exists>ref created.
           fst ref = col_path col \<and> (\<forall>i. given doc_id = Some i \<longrightarrow> snd ref = i) \<and>
           set (model_to_dict m False) =
             {kv \<in> set (attrs m). snd kv \<noteq> VNone \<and> fst kv \<noteq> ''id''} \<and>
           map_of (create_payload (model_to_dict m False) True) ''updated_at'' = Some SERVER_TIMESTAMP \<and>
           map_of (create_payload (model_to_dict m False) True) ''created_at'' =
             (case map_of (model_to_dict m False) ''created_at'' of
                Some v \<Rightarrow> Some (Plain v)
              | None \<Rightarrow> Some SERVER_TIMESTAMP) \<and>
           (\<forall>k. k \<noteq> ''created_at'' \<and> k \<noteq> ''updated_at'' \<longrightarrow>
              map_of (create_payload (model_to_dict m False) True) k =
                map_option Plain (map_of (model_to_dict m False) k)) \<and>
           docs s' = AList.update ref
             (resolve (Suc (server_clock s)) (create_payload (model_to_dict m False) True)) (docs s) \<and>
           construct (col_cls col) (wall_clock s)
             (AList.update ''id'' (VStr (snd ref))
               (resolve (Suc (server_clock s)) (create_payload (model_to_dict m False) True)))
             = Some created \<and>
           e = attach_metadata created (col_meta col) \<and>
           cls e = col_cls col \<and> map fst (attrs e) = map fname (fields_of (col_cls col)) \<and>
           getattr e ''id'' = Some (VStr (snd ref)) \<and>
           (\<forall>kv \<in> set (col_meta col). getattr e (fst kv) =
              (if fst kv \<in> fname ` set (fields_of (col_cls col)) then Some (snd kv) else None)) \<and>
           (\<forall>f \<in> set (fields_of (col_cls col)).
              fname f \<noteq> ''id'' \<and> fname f \<notin> fst ` set (col_meta col) \<longrightarrow>
              getattr e (fname f) =
                field_value (wall_clock s)
                  (resolve (Suc (server_clock s)) (create_payload (model_to_dict m False) True)) f)"
proof -
  let ?d = "resolve (Suc (server_clock s)) (create_payload (model_to_dict m False) True)"
  from create_in_Inr [OF assms] obtain ref created where r:
    "fst ref = col_path col" "\<forall>i. given doc_id = Some i \<longrightarrow> snd ref = i"
    "docs s' = AList.update ref ?d (docs s)"
    "construct (col_cls col) (wall_clock s) (AList.update ''id'' (VStr (snd ref)) ?d) = Some created"
    "e = attach_metadata created (col_meta col)"
    by blast
  note h = hydrated [OF r(4,5) meta_distinct meta_nonnull stamp_not_meta(3)]
  from r h show ?thesis
    using set_model_to_dict [of m]
    by (intro exI [of _ ref] exI [of _ created]) (simp add: map_of_create_payload)
qed

theorem create_writes_stamps_reads_back_witness:
  "\<exists>e s'. create_in (Projects ''org_1'') bare_project (Some ''proj_1'') env0 = (Inr e, s') \<and>
     map_of (create_payload (model_to_dict bare_project False) True) ''updated_at'' = Some SERVER_TIMESTAMP \<and>
     map_of (create_payload (model_to_dict bare_project False) True) ''created_at'' = Some (Plain (VTime 0)) \<and>
     docs s' = [((projects_col ''org_1'', ''proj_1''),
                 resolve 1 (create_payload (model_to_dict bare_project False) True))] \<and>
     getattr e ''id'' = Some (VStr ''proj_1'') \<and>
     getattr e ''org_id'' = Some (VStr ''org_1'') \<and>
     getattr e ''name'' = Some (VStr ''Demo'') \<and>
     getattr e ''updated_at'' = Some (VTime 1)"
proof -
  let ?p = "create_payload (model_to_dict bare_project False) True"
  have "\<not> isl (fst (create_in (Projects ''org_1'') bare_project (Some ''proj_1'') env0))"
    by code_simp
  then obtain e s' where
    h: "create_in (Projects ''org_1'') bare_project (Some ''proj_1'') env0 = (Inr e, s')"
    by (rule sum_result_cases)
  have e0: "docs env0 = []" "server_clock env0 = 0" by (simp_all add: env0_def)
  from create_writes_stamps_reads_back [OF h] obtain ref where
    ref: "fst ref = col_path (Projects ''org_1'')"
      "\<forall>i. given (Some ''proj_1'') = Some i \<longrightarrow> snd ref = i"
    and pay: "map_of ?p ''updated_at'' = Some SERVER_TIMESTAMP"
      "map_of ?p ''created_at'' =
         (case map_of (model_to_dict bare_project False) ''created_at'' of
            Some v \<Rightarrow> Some (Plain v) | None \<Rightarrow> Some SERVER_TIMESTAMP)"
    and d: "docs s' = AList.update ref (resolve (Suc (server_clock env0)) ?p) (docs env0)"
    and idv: "getattr e ''id'' = Some (VStr (snd ref))"
    and meta: "\<forall>kv \<in> set (col_meta (Projects ''org_1'')). getattr e (fst kv) =
        (if fst kv \<in> fname ` set (fields_of (col_cls (Projects ''org_1''))) then Some (snd kv)
         else None)"
    and flds: "\<forall>f \<in> set (fields_of (col_cls (Projects ''org_1''))).
        fname f \<noteq> ''id'' \<and> fname f \<notin> fst ` set (col_meta (Projects ''org_1'')) \<longrightarrow>
        getattr e (fname f) = field_value (wall_clock env0) (resolve (Suc (server_clock env0)) ?p) f"
    by (elim exE conjE) (rule that)
  from ref have r: "ref = (projects_col ''org_1'', ''proj_1'')" by (cases ref) simp
  have inm: "(''org_id'', VStr ''org_1'') \<in> set (col_meta (Projects ''org_1''))" by simp
  have mem: "''org_id'' \<in> fname ` set (fields_of (col_cls (Projects ''org_1'')))"
    using bare_project_facts(2) by (simp only: col_cls.simps)
  from bspec [OF meta inm] mem have org: "getattr e ''org_id'' = Some (VStr ''org_1'')"
    by (simp only: fst_conv snd_conv if_True)
  from flds [rule_format, OF bare_project_facts(3) [folded col_cls.simps(2) [of "''org_1''"]]]
    bare_project_facts(7)
  have name: "getattr e ''name'' = Some (VStr ''Demo'')" by simp
  from flds [rule_format, OF bare_project_facts(4) [folded col_cls.simps(2) [of "''org_1''"]]]
    bare_project_facts(8)
  have upd: "getattr e ''updated_at'' = Some (VTime 1)" by (simp add: opt_def)
  from pay bare_project_facts(5) have c: "map_of ?p ''created_at'' = Some (Plain (VTime 0))"
    by simp
  from d r e0 have ds: "docs s' = [((projects_col ''org_1'', ''proj_1''), resolve 1 ?p)]"
    by simp
  from h pay(1) c ds idv r org name upd show ?thesis
    by (intro exI [of _ e] exI [of _ s']) simp
qed

text \<open>
  The claim as stated fails on the unset fields: a project constructed from a name alone
  is written with \<open>settings\<close>, \<open>asset_count\<close> and \<open>theme_count\<close> (and the client-side
  \<open>created_at\<close>), none of which the caller has set.
\<close>

theorem unset_defaults_written:
  "construct Project 0 [(''name'', VStr ''Demo'')] = Some bare_project \<and>
   map_of (docs (snd (create_project ''org_1'' bare_project (Some ''proj_1'') env0)))
     (projects_col ''org_1'', ''proj_1'') =
   Some [(''created_at'', VTime 0), (''name'', VStr ''Demo''), (''settings'', VDict []),
         (''asset_count'', VInt 0), (''theme_count'', VInt 0), (''updated_at'', VTime 1)]"
  by code_simp


lemma project_getattrs:
  "getattr bare_project ''org_id'' = Some VNone"
  "getattr demo_project ''org_id'' = Some (VStr ''org_1'')"
  "getattr demo_project ''project_id'' = Some VNone"
  by code_simp+

text \<open>
  Claim C5, as amended. The document a successful Create has stored holds no \<open>id\<close>,
  the store's timestamp in \<open>updated_at\<close>, in \<open>created_at\<close> the model's value or, when
  the model carries none, the store's timestamp, and for every other field the model's
  value when it is not \<open>None\<close> and no entry otherwise. So \<open>org_id\<close>, \<open>project_id\<close>,
  \<open>asset_id\<close> and \<open>generation_id\<close> are persisted exactly when the model carries them,
  and are not written for a model that carries none. On the entity returned, each
  ancestor id of the path is the value of the attribute of its name when the class
  declares it, and is no attribute of the entity otherwise.
\<close>

theorem create_persists_model_fields:
  assumes v: "valid_model m" and c: "create_in col m doc_id s = (Inr e, s')"
  shows "\<exists>ref d. fst ref = col_path col \<and> map_of (docs s') ref = Some d \<and>
           map_of d ''id'' = None \<and>
           map_of d ''updated_at'' = Some (VTime (Suc (server_clock s))) \<and>
           map_of d ''created_at'' =
             (if getattr m ''created_at'' = Some VNone then Some (VTime (Suc (server_clock s)))
              else getattr m ''created_at'') \<and>
           (\<forall>k. k \<noteq> ''id'' \<and> k \<noteq> ''created_at'' \<and> k \<noteq> ''updated_at'' \<longrightarrow>
              map_of d k = (case getattr m k of
                              Some v \<Rightarrow> if v = VNone then None else Some v
                            | None \<Rightarrow> None)) \<and>
           (\<forall>kv \<in> set (col_meta col). getattr e (fst kv) =
              (if fst kv \<in> fname ` set (fields_of (col_cls col)) then Some (snd kv) else None))"
proof -
  let ?d = "resolve (Suc (server_clock s)) (create_payload (model_to_dict m False) True)"
  from create_in_Inr [OF c] obtain ref created where r:
    "fst ref = col_path col"
    "docs s' = AList.update ref ?d (docs s)"
    "construct (col_cls col) (wall_clock s) (AList.update ''id'' (VStr (snd ref)) ?d) = Some created"
    "e = attach_metadata created (col_meta col)"
    by blast
  have stored: "map_of (docs s') ref = Some ?d" by (simp add: r(2) update_conv')
  have idn: "map_of ?d ''id'' = None"
    by (simp add: map_of_stored getattr_valid [OF v])
  have u: "map_of ?d ''updated_at'' = Some (VTime (Suc (server_clock s)))"
    by (simp add: map_of_stored)
  from valid_created_at [OF v] obtain w where w: "getattr m ''created_at'' = Some w" by blast
  have ca: "map_of ?d ''created_at'' =
       (if getattr m ''created_at'' = Some VNone then Some (VTime (Suc (server_clock s)))
        else getattr m ''created_at'')"
    using w by (simp add: map_of_stored getattr_valid [OF v])
  have rest: "\<forall>k. k \<noteq> ''id'' \<and> k \<noteq> ''created_at'' \<and> k \<noteq> ''updated_at'' \<longrightarrow>
      map_of ?d k = (case getattr m k of
                       Some v \<Rightarrow> if v = VNone then None else Some v
                     | None \<Rightarrow> None)"
    by (simp add: map_of_stored getattr_valid [OF v])
  from hydrated [OF r(3,4) meta_distinct meta_nonnull stamp_not_meta(3)]
  have meta: "\<forall>kv \<in> set (col_meta col). getattr e (fst kv) =
      (if fst kv \<in> fname ` set (fields_of (col_cls col)) then Some (snd kv) else None)"
    by blast
  from r(1) stored idn u ca rest meta show ?thesis
    by (intro exI [of _ ref] exI [of _ ?d] conjI)
qed

theorem create_persists_model_fields_witness:
  "valid_model bare_project \<and> valid_model demo_project \<and>
   (\<exists>e s' ref d. create_in (Projects ''org_1'') bare_project (Some ''proj_1'') env0 = (Inr e, s') \<and>
      fst ref = projects_col ''org_1'' \<and> map_of (docs s') ref = Some d \<and>
      map_of d ''org_id'' = None \<and> map_of d ''updated_at'' = Some (VTime 1) \<and>
      getattr e ''org_id'' = Some (VStr ''org_1'')) \<and>
   (\<exists>e s' ref d. create_in (Projects ''org_1'') demo_project (Some ''proj_1'') env0 = (Inr e, s') \<and>
      fst ref = projects_col ''org_1'' \<and> map_of (docs s') ref = Some d \<and>
      map_of d ''org_id'' = Some (VStr ''org_1'') \<and> map_of d ''project_id'' = None)"
proof -
  have e0: "server_clock env0 = 0" by (simp add: env0_def)
  have inm: "(''org_id'', VStr ''org_1'') \<in> set (col_meta (Projects ''org_1''))" by simp
  have mem: "''org_id'' \<in> fname ` set (fields_of (col_cls (Projects ''org_1'')))"
    using bare_project_facts(2) by (simp only: col_cls.simps)
  have first: "\<exists>e s' ref d.
      create_in (Projects ''org_1'') bare_project (Some ''proj_1'') env0 = (Inr e, s') \<and>
      fst ref = projects_col ''org_1'' \<and> map_of (docs s') ref = Some d \<and>
      map_of d ''org_id'' = None \<and> map_of d ''updated_at'' = Some (VTime 1) \<and>
      getattr e ''org_id'' = Some (VStr ''org_1'')"
  proof -
    have "\<not> isl (fst (create_in (Projects ''org_1'') bare_project (Some ''proj_1'') env0))"
      by code_simp
    then obtain e s' where
      h: "create_in (Projects ''org_1'') bare_project (Some ''proj_1'') env0 = (Inr e, s')"
      by (rule sum_result_cases)
    from create_persists_model_fields [OF bare_project_facts(1) h] obtain ref d where
      r: "fst ref = col_path (Projects ''org_1'')" "map_of (docs s') ref = Some d"
        "map_of d ''updated_at'' = Some (VTime (Suc (server_clock env0)))"
      and k: "\<forall>k. k \<noteq> ''id'' \<and> k \<noteq> ''created_at'' \<and> k \<noteq> ''updated_at'' \<longrightarrow>
          map_of d k = (case getattr bare_project k of
                          Some v \<Rightarrow> if v = VNone then None else Some v
                        | None \<Rightarrow> None)"
      and meta: "\<forall>kv \<in> set (col_meta (Projects ''org_1'')). getattr e (fst kv) =
          (if fst kv \<in> fname ` set (fields_of (col_cls (Projects ''org_1''))) then Some (snd kv)
           else None)"
      by (elim exE conjE) (rule that)
    from k [rule_format, of "''org_id''"] project_getattrs(1)
    have o: "map_of d ''org_id'' = None" by simp
    from bspec [OF meta inm] mem have org: "getattr e ''org_id'' = Some (VStr ''org_1'')"
      by (simp only: fst_conv snd_conv if_True)
    from h r o org e0 show ?thesis
      by (intro exI [of _ e] exI [of _ s'] exI [of _ ref] exI [of _ d]) simp
  qed
  have second: "\<exists>e s' ref d.
      create_in (Projects ''org_1'') demo_project (Some ''proj_1'') env0 = (Inr e, s') \<and>
      fst ref = projects_col ''org_1'' \<and> map_of (docs s') ref = Some d \<and>
      map_of d ''org_id'' = Some (VStr ''org_1'') \<and> map_of d ''project_id'' = None"
  proof -
    have "\<not> isl (fst (create_in (Projects ''org_1'') demo_project (Some ''proj_1'') env0))"
      by code_simp
    then obtain e s' where
      h: "create_in (Projects ''org_1'') demo_project (Some ''proj_1'') env0 = (Inr e, s')"
      by (rule sum_result_cases)
    from create_persists_model_fields [OF valid_demo_project h] obtain ref d where
      r: "fst ref = col_path (Projects ''org_1'')" "map_of (docs s') ref = Some d"
      and k: "\<forall>k. k \<noteq> ''id'' \<and> k \<noteq> ''created_at'' \<and> k \<noteq> ''updated_at'' \<longrightarrow>
          map_of d k = (case getattr demo_project k of
                          Some v \<Rightarrow> if v = VNone then None else Some v
                        | None \<Rightarrow> None)"
      by (elim exE conjE) (rule that)
    from k [rule_format, of "''org_id''"] k [rule_format, of "''project_id''"] project_getattrs(2,3)
    have "map_of d ''org_id'' = Some (VStr ''org_1'')" "map_of d ''project_id'' = None"
      by simp_all
    with h r show ?thesis
      by (intro exI [of _ e] exI [of _ s'] exI [of _ ref] exI [of _ d]) simp
  qed
  from first second bare_project_facts(1) valid_demo_project show ?thesis by blast
qed

end
